theory Spec2Isabelle
  imports Main "HOL-Library.Sublist"
begin

section \<open>Python values and exceptions\<close>

text \<open>
  The probes of ptelastic read HTTP responses whose bodies are decoded by
  \<^verbatim>\<open>response.json()\<close>. A decoded body is a Python value built from
  \<^verbatim>\<open>None\<close>, booleans, numbers, strings, lists and dictionaries with
  string keys. A float is named by its \<^verbatim>\<open>repr\<close>; the probes never
  compute with one. A dictionary is the list of its items in insertion order.
  Python text is modelled as \<^typ>\<open>string\<close>.
\<close>

datatype jvalue =
    JNull
  | JBool bool
  | JInt int
  | JFloat string
  | JStr string
  | JArr "jvalue list"
  | JObj "(string \<times> jvalue) list"

text \<open>
  The exceptions the modelled code can meet. \<open>KeyError\<close> carries the missing key,
  which the probes print. \<open>OtherException\<close> stands for any further subclass of
  \<^verbatim>\<open>Exception\<close> that the HTTP client may raise (connection errors, timeouts).
  What is not an \<^verbatim>\<open>Exception\<close> in Python (a keyboard interrupt, an exit of the
  interpreter) is outside the model.
\<close>

datatype exn =
    KeyError jvalue
  | IndexError
  | TypeError
  | AttributeError
  | JSONDecodeError
  | OtherException string

text \<open>
  \<^verbatim>\<open>xs[i]\<close> on a list or a string of length \<open>n\<close>: the positions \<open>0\<close> to
  \<open>n - 1\<close> are read directly, \<open>-n\<close> to \<open>-1\<close> are read from the back, and
  anything else raises.
\<close>

definition index_list :: "'a list \<Rightarrow> int \<Rightarrow> exn + 'a" where
  "index_list xs i =
     (if 0 \<le> i \<and> i < int (length xs) then Inr (xs ! nat i)
      else if i < 0 \<and> - int (length xs) \<le> i then Inr (xs ! nat (int (length xs) + i))
      else Inl IndexError)"

text \<open>
  \<^verbatim>\<open>v[k]\<close>. A dictionary decoded from JSON has string keys only, so any other
  hashable key is missing and a list or dictionary used as key is unhashable. Lists and
  strings take integers (a \<^verbatim>\<open>bool\<close> is an integer in Python); every other
  value is not subscriptable.
\<close>

fun getitem :: "jvalue \<Rightarrow> jvalue \<Rightarrow> exn + jvalue" where
  "getitem (JObj kvs) (JStr k) =
     (case map_of kvs k of None \<Rightarrow> Inl (KeyError (JStr k)) | Some v \<Rightarrow> Inr v)"
| "getitem (JObj kvs) (JArr xs) = Inl TypeError"
| "getitem (JObj kvs) (JObj ys) = Inl TypeError"
| "getitem (JObj kvs) k = Inl (KeyError k)"
| "getitem (JArr xs) (JInt i) = index_list xs i"
| "getitem (JArr xs) (JBool b) = index_list xs (if b then 1 else 0)"
| "getitem (JArr xs) k = Inl TypeError"
| "getitem (JStr s) (JInt i) = map_sum id (\<lambda>c. JStr [c]) (index_list s i)"
| "getitem (JStr s) (JBool b) = map_sum id (\<lambda>c. JStr [c]) (index_list s (if b then 1 else 0))"
| "getitem (JStr s) k = Inl TypeError"
| "getitem v k = Inl TypeError"

text \<open>A chain of subscripts \<^verbatim>\<open>v[k1][k2]...\<close>: the first failure is raised.\<close>

definition then_getitem :: "exn + jvalue \<Rightarrow> jvalue \<Rightarrow> exn + jvalue" where
  "then_getitem r k = (case r of Inl e \<Rightarrow> Inl e | Inr v \<Rightarrow> getitem v k)"

text \<open>\<^verbatim>\<open>v == "literal"\<close>: only a string equals a string.\<close>

fun eq_str :: "jvalue \<Rightarrow> string \<Rightarrow> bool" where
  "eq_str (JStr s) t = (s = t)"
| "eq_str v t = False"

text \<open>\<^verbatim>\<open>sub in s\<close> on strings: \<open>sub\<close> occurs in \<open>s\<close> as a contiguous piece.\<close>

fun str_in :: "string \<Rightarrow> string \<Rightarrow> bool" where
  "str_in sub [] = (sub = [])"
| "str_in sub (c # cs) = (prefix sub (c # cs) \<or> str_in sub cs)"

text \<open>\<^verbatim>\<open>str.lower()\<close> and \<^verbatim>\<open>str.upper()\<close> on the letters A to Z.\<close>

definition lower_char :: "char \<Rightarrow> char" where
  "lower_char c =
     (let n = (of_char c :: nat) in if 65 \<le> n \<and> n \<le> 90 then char_of (n + 32) else c)"

definition lower :: "string \<Rightarrow> string" where
  "lower s = map lower_char s"

definition upper_char :: "char \<Rightarrow> char" where
  "upper_char c =
     (let n = (of_char c :: nat) in if 97 \<le> n \<and> n \<le> 122 then char_of (n - 32) else c)"

definition upper :: "string \<Rightarrow> string" where
  "upper s = map upper_char s"

section \<open>The collaborators: arguments, HTTP client, printer, report\<close>

text \<open>
  \<^verbatim>\<open>args\<close> as the probes read it: the target URL, the verbosity flag and the
  JSON-output flag.
\<close>

record args =
  url :: string
  verbose :: bool
  json :: bool

text \<open>
  A \<^verbatim>\<open>requests.Response\<close>: the status code, the headers (looked up without
  regard to the case of the name), the body text, and what \<^verbatim>\<open>response.json()\<close>
  gives for that body: \<open>None\<close> when the body is not valid JSON. The JSON decoder
  belongs to the library, so the decoded value is part of the response here; the
  general theorems hold for every pairing of text and decoded value, and the concrete
  inputs below pair each body with its decoding.
\<close>

record response =
  status_code :: int
  headers :: "(string \<times> string) list"
  response_text :: string
  decoded :: "jvalue option"

definition headers_getitem :: "(string \<times> string) list \<Rightarrow> string \<Rightarrow> exn + string" where
  "headers_getitem hs k =
     (case map_of (map (\<lambda>(n, v). (lower n, v)) hs) (lower k) of
        None \<Rightarrow> Inl (KeyError (JStr k))
      | Some v \<Rightarrow> Inr v)"

definition response_json :: "response \<Rightarrow> exn + jvalue" where
  "response_json r = (case decoded r of None \<Rightarrow> Inl JSONDecodeError | Some j \<Rightarrow> Inr j)"

text \<open>
  The HTTP client answers a GET of a URL with a response or raises. Every probe asks
  for each of its URLs once.
\<close>

type_synonym client = "string \<Rightarrow> exn + response"

text \<open>
  An f-string before it is rendered: its literal pieces and the values it formats.
\<close>

datatype part =
    Lit string
  | Fmt_int int
  | Fmt jvalue
  | Fmt_exn exn

text \<open>
  A call \<^verbatim>\<open>ptprint(text, bullet_type, condition, indent=n)\<close>. The printer shows the
  line when the condition holds; the probes pass \<^verbatim>\<open>not self.args.json\<close>.
\<close>

datatype call = Ptprint (call_text: "part list") (bullet_type: string) (condition: bool) (indent: nat)

text \<open>
  The properties of a report node: a dictionary built on the spot, or a reference to a
  dictionary object that the probe keeps changing after the node is recorded.
\<close>

datatype props = Dict "(string \<times> jvalue) list" | Ref nat

record node =
  node_type :: string
  properties :: props

text \<open>
  The user-properties dictionary of the user enumeration: \<^verbatim>\<open>username\<close>,
  \<^verbatim>\<open>email\<close> and \<^verbatim>\<open>roles\<close>, the last a dictionary from a role to the list
  of its privileges.
\<close>

record user_properties =
  username :: jvalue
  email :: jvalue
  roles :: "(jvalue \<times> jvalue list) list"

text \<open>
  Everything a probe does to the outside, in order: the URLs requested, the printer
  calls, the nodes and vulnerabilities added to the report, and the dictionary objects
  that report nodes refer to.
\<close>

record world =
  sent :: "string list"
  printed :: "call list"
  nodes :: "node list"
  vulnerabilities :: "string list"
  heap :: "user_properties list"

definition send_request :: "client \<Rightarrow> string \<Rightarrow> world \<Rightarrow> (exn + response) \<times> world" where
  "send_request c u w = (c u, w\<lparr>sent := sent w @ [u]\<rparr>)"

definition ptprint :: "part list \<Rightarrow> string \<Rightarrow> bool \<Rightarrow> nat \<Rightarrow> world \<Rightarrow> world" where
  "ptprint t b cond n w = w\<lparr>printed := printed w @ [Ptprint t b cond n]\<rparr>"

definition create_node_object :: "string \<Rightarrow> props \<Rightarrow> node" where
  "create_node_object ty p = \<lparr>node_type = ty, properties = p\<rparr>"

definition add_node :: "node \<Rightarrow> world \<Rightarrow> world" where
  "add_node n w = w\<lparr>nodes := nodes w @ [n]\<rparr>"

definition add_vulnerability :: "string \<Rightarrow> world \<Rightarrow> world" where
  "add_vulnerability v w = w\<lparr>vulnerabilities := vulnerabilities w @ [v]\<rparr>"

section \<open>is_elastic.py: the availability test\<close>

definition check_text :: "response \<Rightarrow> bool" where
  "check_text r = str_in ''elasticsearch'' (lower (response_text r))"

text \<open>
  \<^verbatim>\<open>IsElastic.run\<close>. The result is \<open>Inr ()\<close> when \<open>run\<close> returns and \<open>Inl e\<close> when
  the exception \<open>e\<close> leaves it; the world holds what was done until then.
\<close>

definition is_elastic_run :: "args \<Rightarrow> client \<Rightarrow> world \<Rightarrow> (exn + unit) \<times> world" where
  "is_elastic_run a c w0 =
     (case send_request c (url a) w0 of
        (Inl e, w1) \<Rightarrow> (Inl e, w1)
      | (Inr r, w1) \<Rightarrow>
          let w = (if verbose a
                   then ptprint [Lit ''Returned response status: '', Fmt_int (status_code r)]
                          ''INFO'' (\<not> json a) 4
                          (ptprint [Lit ''Sending request to: '', Fmt (JStr (url a))]
                             ''INFO'' (\<not> json a) 4 w1)
                   else w1)
          in
          (case headers_getitem (headers r) ''content-type'' of
             Inl e \<Rightarrow>
               (case e of
                  KeyError k \<Rightarrow>
                    (Inr (), ptprint [Lit ''The host is not running ElasticSearch'']
                               ''VULN'' (\<not> json a) 4 w)
                | _ \<Rightarrow> (Inl e, w))
           | Inr ct \<Rightarrow>
               if \<not> str_in ''application/json'' ct
               then (Inr (), ptprint [Lit ''The host is not running ElasticSearch'']
                               ''VULN'' (\<not> json a) 4 w)
               else if status_code r = 401 then
                 (case response_json r of
                    Inl e \<Rightarrow> (Inl e, w)
                  | Inr body \<Rightarrow>
                      if check_text r
                      then (Inr (), ptprint [Lit ''The host is running ElasticSearch'']
                                      ''VULN'' (\<not> json a) 4 w)
                      else
                        (case then_getitem (then_getitem (then_getitem
                                 (getitem body (JStr ''error''))
                                 (JStr ''root_cause'')) (JInt 0)) (JStr ''type'') of
                           Inr ty \<Rightarrow>
                             if eq_str ty ''security_exception''
                             then (Inr (), ptprint [Lit ''The host might be running ElasticSearch'']
                                             ''VULN'' (\<not> json a) 4 w)
                             else (Inr (), w)
                         | Inl e \<Rightarrow>
                             (case e of
                                KeyError k \<Rightarrow>
                                  (Inr (), ptprint [Lit ''The host is probably not running ElasticSearch'']
                                             ''VULN'' (\<not> json a) 4 w)
                              | _ \<Rightarrow> (Inl e, w))))
               else if status_code r = 200 then
                 (case headers_getitem (headers r) ''X-elastic-product'' of
                    Inr v \<Rightarrow>
                      if v = ''Elasticsearch''
                      then (Inr (), ptprint [Lit ''The host is running ElasticSearch'']
                                      ''VULN'' (\<not> json a) 4 w)
                      else (Inr (), w)
                  | Inl e \<Rightarrow>
                      (case e of
                         KeyError k \<Rightarrow>
                           if check_text r
                           then (Inr (), ptprint [Lit ''The host is running ElasticSearch'']
                                           ''VULN'' (\<not> json a) 4 w)
                           else (Inr (), w)
                       | _ \<Rightarrow> (Inl e, w)))
               else (Inr (), ptprint [Lit ''The host is not running ElasticSearch'']
                               ''VULN'' (\<not> json a) 4 w)))"

text \<open>
  The two \<^verbatim>\<open>INFO\<close> lines of a verbose run (lines 56 to 58 of the source), printed
  after the request and before the classification.
\<close>

definition info_lines :: "args \<Rightarrow> response \<Rightarrow> call list" where
  "info_lines a r =
     (if verbose a
      then [Ptprint [Lit ''Sending request to: '', Fmt (JStr (url a))] ''INFO'' (\<not> json a) 4,
            Ptprint [Lit ''Returned response status: '', Fmt_int (status_code r)]
              ''INFO'' (\<not> json a) 4]
      else [])"

text \<open>
  The verdict a printer call shows. The availability test reports through its
  \<^verbatim>\<open>VULN\<close> lines: "is running" is Confirmed, "might be running" is Likely, "is not
  running" and "is probably not running" are NotDetected. A call whose condition is
  false shows no line, so it shows no verdict; every other call carries none.
\<close>

datatype verdict = Confirmed | Likely | NotDetected

definition verdict_of :: "call \<Rightarrow> verdict list" where
  "verdict_of p =
     (if bullet_type p \<noteq> ''VULN'' then []
      else if \<not> condition p then []
      else if call_text p = [Lit ''The host is running ElasticSearch''] then [Confirmed]
      else if call_text p = [Lit ''The host might be running ElasticSearch''] then [Likely]
      else if call_text p = [Lit ''The host is not running ElasticSearch''] then [NotDetected]
      else if call_text p = [Lit ''The host is probably not running ElasticSearch'']
           then [NotDetected]
      else [])"

definition verdicts :: "call list \<Rightarrow> verdict list" where
  "verdicts ps = concat (map verdict_of ps)"

text \<open>
  What one run of the availability test shows: how \<open>run\<close> ended, and the verdicts of
  the lines the printer showed for it, in order.
\<close>

definition is_elastic_outcome :: "args \<Rightarrow> client \<Rightarrow> world \<Rightarrow> (exn + unit) \<times> verdict list" where
  "is_elastic_outcome a c w0 =
     (case is_elastic_run a c w0 of
        (res, w) \<Rightarrow> (res, verdicts (drop (length (printed w0)) (printed w))))"

section \<open>Iteration, joining and dictionaries of Python values\<close>

text \<open>
  What a \<^verbatim>\<open>for\<close> loop (or \<^verbatim>\<open>zip\<close>, \<^verbatim>\<open>join\<close>) draws from a value: the
  elements of a list, the keys of a dictionary, the characters of a string. Every other
  decoded value is not iterable.
\<close>

fun iterate :: "jvalue \<Rightarrow> exn + jvalue list" where
  "iterate (JArr xs) = Inr xs"
| "iterate (JObj kvs) = Inr (map (\<lambda>(k, v). JStr k) kvs)"
| "iterate (JStr s) = Inr (map (\<lambda>c. JStr [c]) s)"
| "iterate v = Inl TypeError"

text \<open>\<^verbatim>\<open>d.keys()\<close>: only a dictionary has the method.\<close>

fun keys :: "jvalue \<Rightarrow> exn + jvalue list" where
  "keys (JObj kvs) = Inr (map (\<lambda>(k, v). JStr k) kvs)"
| "keys v = Inl AttributeError"

text \<open>\<^verbatim>\<open>sep.join(v)\<close>: every element drawn from \<open>v\<close> has to be a string.\<close>

fun join_strs :: "string \<Rightarrow> jvalue list \<Rightarrow> exn + string" where
  "join_strs sep [] = Inr []"
| "join_strs sep [JStr s] = Inr s"
| "join_strs sep (JStr s # x # xs) =
     (case join_strs sep (x # xs) of Inl e \<Rightarrow> Inl e | Inr t \<Rightarrow> Inr (s @ sep @ t))"
| "join_strs sep (v # xs) = Inl TypeError"

definition join :: "string \<Rightarrow> jvalue \<Rightarrow> exn + string" where
  "join sep v = (case iterate v of Inl e \<Rightarrow> Inl e | Inr xs \<Rightarrow> join_strs sep xs)"

text \<open>\<^verbatim>\<open>"literal" + v\<close>: only a string can be appended to a string.\<close>

fun str_concat :: "string \<Rightarrow> jvalue \<Rightarrow> exn + string" where
  "str_concat s (JStr t) = Inr (s @ t)"
| "str_concat s v = Inl TypeError"

text \<open>\<^verbatim>\<open>s.split(sep)\<close> for a separator of one character: at least one piece.\<close>

fun split :: "char \<Rightarrow> string \<Rightarrow> string list" where
  "split sep [] = [[]]"
| "split sep (c # cs) =
     (if c = sep then [] # split sep cs
      else (case split sep cs of [] \<Rightarrow> [[c]] | piece # pieces \<Rightarrow> (c # piece) # pieces))"

text \<open>
  Dictionaries keyed by decoded values, as \<^verbatim>\<open>dict(pairs)\<close> builds them: a list or
  a dictionary is unhashable, a later pair with a key already present replaces its
  value in place, a new key goes to the end.
\<close>

fun hashable :: "jvalue \<Rightarrow> bool" where
  "hashable (JArr xs) = False"
| "hashable (JObj kvs) = False"
| "hashable v = True"

fun dict_setitem :: "(jvalue \<times> 'v) list \<Rightarrow> jvalue \<Rightarrow> 'v \<Rightarrow> (jvalue \<times> 'v) list" where
  "dict_setitem [] k v = [(k, v)]"
| "dict_setitem ((k', v') # d) k v =
     (if k' = k then (k', v) # d else (k', v') # dict_setitem d k v)"

fun dict_of :: "(jvalue \<times> 'v) list \<Rightarrow> (jvalue \<times> 'v) list \<Rightarrow> exn + (jvalue \<times> 'v) list" where
  "dict_of d [] = Inr d"
| "dict_of d ((k, v) # pairs) =
     (if hashable k then dict_of (dict_setitem d k v) pairs else Inl TypeError)"

section \<open>sw.py: the software test\<close>

text \<open>
  The values of the dictionary literal of \<^verbatim>\<open>_get_es_version\<close>
  (\<^verbatim>\<open>es_version\<close>, \<^verbatim>\<open>name\<close>, \<^verbatim>\<open>cluster_name\<close>,
  \<^verbatim>\<open>apache_lucene_version\<close>): they are read in the order written, and the first
  failing subscript is raised.
\<close>

definition es_properties :: "jvalue \<Rightarrow> exn + jvalue \<times> jvalue \<times> jvalue \<times> jvalue" where
  "es_properties response =
     (case then_getitem (getitem response (JStr ''version'')) (JStr ''number'') of
        Inl e \<Rightarrow> Inl e
      | Inr es_version \<Rightarrow>
     (case getitem response (JStr ''name'') of
        Inl e \<Rightarrow> Inl e
      | Inr name \<Rightarrow>
     (case getitem response (JStr ''cluster_name'') of
        Inl e \<Rightarrow> Inl e
      | Inr cluster_name \<Rightarrow>
     (case then_getitem (getitem response (JStr ''version'')) (JStr ''lucene_version'') of
        Inl e \<Rightarrow> Inl e
      | Inr lucene \<Rightarrow>
          Inr (es_version, name, cluster_name, lucene)))))"

definition get_es_version :: "args \<Rightarrow> client \<Rightarrow> world \<Rightarrow> (exn + bool) \<times> world" where
  "get_es_version a c w0 =
     (case send_request c (url a) w0 of
        (Inl e, w) \<Rightarrow> (Inl e, w)
      | (Inr r, w) \<Rightarrow>
          if status_code r \<noteq> 200
          then (Inr False,
                ptprint [Lit ''Could not enumerate ES version. Received reponse code: '',
                         Fmt_int (status_code r)] ''ERROR'' (\<not> json a) 4 w)
          else
            (case response_json r of
               Inl e \<Rightarrow> (Inl e, w)
             | Inr response \<Rightarrow>
                 (case es_properties response of
                    Inl e \<Rightarrow>
                      (case e of
                         KeyError k \<Rightarrow>
                           (Inr False,
                            ptprint [Lit ''Error when reading JSON response. Cannot find key: '',
                                     Fmt_exn e] ''ERROR'' (\<not> json a) 4 w)
                       | _ \<Rightarrow> (Inl e, w))
                  | Inr (es_version, name, cluster_name, lucene) \<Rightarrow>
                      (Inr True,
                       add_node (create_node_object ''sw''
                           (Dict [(''es_version'', es_version), (''name'', name),
                                  (''cluster_name'', cluster_name),
                                  (''apache_lucene_version'', lucene)]))
                         (ptprint [Lit ''Apache Lucene Version: '', Fmt lucene]
                            ''INFO'' (\<not> json a) 4
                         (ptprint [Lit ''Cluster name: '', Fmt cluster_name]
                            ''INFO'' (\<not> json a) 4
                         (ptprint [Lit ''Elasticsearch version: '', Fmt es_version]
                            ''INFO'' (\<not> json a) 4 w)))))))"

text \<open>The inner loop of \<^verbatim>\<open>_get_modules\<close>, over the modules of one node.\<close>

fun modules_loop :: "args \<Rightarrow> jvalue list \<Rightarrow> world \<Rightarrow> (exn + unit) \<times> world" where
  "modules_loop a [] w = (Inr (), w)"
| "modules_loop a (module # rest) w =
     (case getitem module (JStr ''name'') of
        Inl e \<Rightarrow> (Inl e, w)
      | Inr name \<Rightarrow>
     (case getitem module (JStr ''version'') of
        Inl e \<Rightarrow> (Inl e, w)
      | Inr version \<Rightarrow>
     (case getitem module (JStr ''description'') of
        Inl e \<Rightarrow> (Inl e, w)
      | Inr description \<Rightarrow>
          modules_loop a rest
            (ptprint [Lit ''Found module: '', Fmt name, Lit '' '', Fmt version]
               ''INFO'' (\<not> json a) 4
               (add_node (create_node_object ''sw''
                    (Dict [(''name'', name), (''version'', version),
                           (''description'', description)])) w)))))"

text \<open>The outer loop of \<^verbatim>\<open>_get_modules\<close>, over the node names.\<close>

fun nodes_loop :: "args \<Rightarrow> jvalue \<Rightarrow> jvalue list \<Rightarrow> world \<Rightarrow> (exn + unit) \<times> world" where
  "nodes_loop a response [] w = (Inr (), w)"
| "nodes_loop a response (node # rest) w =
     (case then_getitem (then_getitem (getitem response (JStr ''nodes'')) node)
             (JStr ''modules'') of
        Inl e \<Rightarrow> (Inl e, w)
      | Inr modules \<Rightarrow>
     (case iterate modules of
        Inl e \<Rightarrow> (Inl e, w)
      | Inr ms \<Rightarrow>
     (case modules_loop a ms w of
        (Inl e, w') \<Rightarrow> (Inl e, w')
      | (Inr u, w') \<Rightarrow> nodes_loop a response rest w')))"

definition get_modules :: "args \<Rightarrow> client \<Rightarrow> world \<Rightarrow> (exn + bool) \<times> world" where
  "get_modules a c w0 =
     (case send_request c (url a @ ''_nodes'') w0 of
        (Inl e, w) \<Rightarrow> (Inl e, w)
      | (Inr r, w) \<Rightarrow>
          if status_code r \<noteq> 200
          then (Inr False,
                ptprint [Lit ''Could not enumerate modules. Received reponse code: '',
                         Fmt_int (status_code r)] ''ERROR'' (\<not> json a) 4 w)
          else
            (case response_json r of
               Inl e \<Rightarrow> (Inl e, w)
             | Inr response \<Rightarrow>
            (case getitem response (JStr ''nodes'') of
               Inl e \<Rightarrow> (Inl e, w)
             | Inr ns \<Rightarrow>
            (case keys ns of
               Inl e \<Rightarrow> (Inl e, w)
             | Inr node_names \<Rightarrow>
            (case nodes_loop a response node_names w of
               (Inl e, w') \<Rightarrow> (Inl e, w')
             | (Inr u, w') \<Rightarrow> (Inr True, w'))))))"

text \<open>
  The loop of \<^verbatim>\<open>_get_plugins\<close>: the empty pieces of a line are dropped and its
  first three words are read.
\<close>

fun plugins_loop :: "args \<Rightarrow> string list list \<Rightarrow> world \<Rightarrow> (exn + unit) \<times> world" where
  "plugins_loop a [] w = (Inr (), w)"
| "plugins_loop a (line # rest) w =
     (let plugin = filter (\<lambda>s. s \<noteq> []) line in
      (case index_list plugin 0 of
         Inl e \<Rightarrow> (Inl e, w)
       | Inr es_node \<Rightarrow>
      (case index_list plugin 1 of
         Inl e \<Rightarrow> (Inl e, w)
       | Inr name \<Rightarrow>
      (case index_list plugin 2 of
         Inl e \<Rightarrow> (Inl e, w)
       | Inr version \<Rightarrow>
           plugins_loop a rest
             (ptprint [Lit ''Found plugin: '', Fmt (JStr name), Lit '' '', Fmt (JStr version),
                       Lit '' on node: '', Fmt (JStr es_node)] ''INFO'' (\<not> json a) 4
                (add_node (create_node_object ''sw''
                     (Dict [(''es_node'', JStr es_node), (''name'', JStr name),
                            (''version'', JStr version)])) w))))))"

text \<open>
  \<^verbatim>\<open>_get_plugins\<close>. The body is cut at newlines and each line at blanks; the last
  line is deleted (\<^verbatim>\<open>split\<close> gives at least one piece, so the deletion cannot fail).
\<close>

definition get_plugins :: "args \<Rightarrow> client \<Rightarrow> world \<Rightarrow> (exn + bool) \<times> world" where
  "get_plugins a c w0 =
     (case send_request c (url a @ ''_cat/plugins'') w0 of
        (Inl e, w) \<Rightarrow> (Inl e, w)
      | (Inr r, w) \<Rightarrow>
          if status_code r \<noteq> 200
          then (Inr False,
                ptprint [Lit ''Could not enumerate plugins. Received reponse code: '',
                         Fmt_int (status_code r)] ''ERROR'' (\<not> json a) 4 w)
          else
            (case plugins_loop a
                    (butlast (map (split CHR '' '') (split (CHR 0x0A) (response_text r)))) w of
               (Inl e, w') \<Rightarrow> (Inl e, w')
             | (Inr u, w') \<Rightarrow> (Inr True, w')))"

text \<open>
  One \<^verbatim>\<open>try\<close> block of \<^verbatim>\<open>SwTest.run\<close>: the flag keeps its initial
  \<^verbatim>\<open>False\<close> when the enumeration raises, and the handler prints the exception.
\<close>

definition attempt :: "string \<Rightarrow> args \<Rightarrow> (exn + bool) \<times> world \<Rightarrow> bool \<times> world" where
  "attempt message a res =
     (case res of
        (Inr flag, w) \<Rightarrow> (flag, w)
      | (Inl e, w) \<Rightarrow> (False, ptprint [Lit message, Fmt_exn e] ''ERROR'' (\<not> json a) 4 w))"

definition sw_run :: "args \<Rightarrow> client \<Rightarrow> world \<Rightarrow> (exn + unit) \<times> world" where
  "sw_run a c w0 =
     (case attempt ''Error when enumerating es version: '' a (get_es_version a c w0) of
        (es_version, w1) \<Rightarrow>
     (case attempt ''Error when enumerating modules: '' a (get_modules a c w1) of
        (modules, w2) \<Rightarrow>
     (case attempt ''Error when enumerating plugins: '' a (get_plugins a c w2) of
        (plugins, w3) \<Rightarrow>
          (Inr (), if plugins \<or> modules \<or> es_version
                   then add_vulnerability ''PTV-WEB-MISC-TECH'' w3 else w3))))"

section \<open>users.py: the user enumeration\<close>

text \<open>
  \<^verbatim>\<open>user_properties["roles"][role].append(x)\<close> on the dictionary object at
  address \<open>p\<close>. The report node made from that object sees the change.
\<close>

definition roles_append :: "nat \<Rightarrow> jvalue \<Rightarrow> jvalue \<Rightarrow> world \<Rightarrow> (exn + unit) \<times> world" where
  "roles_append p role x w =
     (let user_properties = heap w ! p in
      (case map_of (roles user_properties) role of
         None \<Rightarrow> (Inl (KeyError role), w)
       | Some privileges \<Rightarrow>
           (Inr (),
            w\<lparr>heap := (heap w)[p := user_properties
                 \<lparr>roles := dict_setitem (roles user_properties) role (privileges @ [x])\<rparr>]\<rparr>)))"

text \<open>The first loop of \<^verbatim>\<open>_check_privileges\<close>, over the index entries of a role.\<close>

fun indices_loop :: "args \<Rightarrow> jvalue \<Rightarrow> nat \<Rightarrow> jvalue list \<Rightarrow> world \<Rightarrow> (exn + unit) \<times> world" where
  "indices_loop a role p [] w = (Inr (), w)"
| "indices_loop a role p (index # rest) w =
     (case getitem index (JStr ''privileges'') of
        Inl e \<Rightarrow> (Inl e, w)
      | Inr privileges \<Rightarrow>
     (case then_getitem (getitem index (JStr ''names'')) (JInt 0) of
        Inl e \<Rightarrow> (Inl e, w)
      | Inr first_name \<Rightarrow>
     (case (if eq_str first_name ''*'' then Inr ''ALL''
            else (case getitem index (JStr ''names'') of
                    Inl e \<Rightarrow> Inl e
                  | Inr names \<Rightarrow> join '', '' names)) of
        Inl e \<Rightarrow> (Inl e, w)
      | Inr index_name \<Rightarrow>
     (case roles_append p role (JObj [(index_name, privileges)]) w of
        (Inl e, w1) \<Rightarrow> (Inl e, w1)
      | (Inr u, w1) \<Rightarrow>
     (case join '', '' privileges of
        Inl e \<Rightarrow> (Inl e, w1)
      | Inr joined \<Rightarrow>
     (case getitem index (JStr ''allow_restricted_indices'') of
        Inl e \<Rightarrow> (Inl e, w1)
      | Inr restricted \<Rightarrow>
          indices_loop a role p rest
            (ptprint [Lit ''Privileges on indices: '', Fmt (JStr index_name), Lit '': '',
                      Fmt (JStr (upper joined)), Lit ''; Can edit restricted indices: '',
                      Fmt restricted] ''INFO'' (\<not> json a) 12 w1)))))))"

text \<open>The second loop of \<^verbatim>\<open>_check_privileges\<close>, over the application entries.\<close>

fun applications_loop ::
  "args \<Rightarrow> jvalue \<Rightarrow> nat \<Rightarrow> jvalue list \<Rightarrow> world \<Rightarrow> (exn + unit) \<times> world" where
  "applications_loop a role p [] w = (Inr (), w)"
| "applications_loop a role p (app # rest) w =
     (case then_getitem (getitem app (JStr ''privileges'')) (JInt 0) of
        Inl e \<Rightarrow> (Inl e, w)
      | Inr first1 \<Rightarrow>
     (case (if eq_str first1 ''*'' then Inr (JStr ''ALL'')
            else getitem app (JStr ''privileges'')) of
        Inl e \<Rightarrow> (Inl e, w)
      | Inr privileges \<Rightarrow>
     (case then_getitem (getitem app (JStr ''privileges'')) (JInt 0) of
        Inl e \<Rightarrow> (Inl e, w)
      | Inr first2 \<Rightarrow>
     (case (if eq_str first2 ''*'' then Inr ''ALL''
            else (case getitem app (JStr ''privileges'') of
                    Inl e \<Rightarrow> Inl e
                  | Inr ps \<Rightarrow> map_sum id upper (join '', '' ps))) of
        Inl e \<Rightarrow> (Inl e, w)
      | Inr privileges_name \<Rightarrow>
     (case getitem app (JStr ''application'') of
        Inl e \<Rightarrow> (Inl e, w)
      | Inr application \<Rightarrow>
     (case (if eq_str application ''*'' then Inr ''app_ALL''
            else (case getitem app (JStr ''application'') of
                    Inl e \<Rightarrow> Inl e
                  | Inr application2 \<Rightarrow> str_concat ''app_'' application2)) of
        Inl e \<Rightarrow> (Inl e, w)
      | Inr app_name \<Rightarrow>
     (case roles_append p role (JObj [(app_name, privileges)]) w of
        (Inl e, w1) \<Rightarrow> (Inl e, w1)
      | (Inr u, w1) \<Rightarrow>
          applications_loop a role p rest
            (ptprint [Lit ''Privileges on application: '', Fmt (JStr app_name), Lit '': '',
                      Fmt (JStr privileges_name)] ''INFO'' (\<not> json a) 12 w1))))))))"

text \<open>
  \<^verbatim>\<open>Users._check_privileges\<close>, with the user-properties object given by its
  address \<open>p\<close>.
\<close>

definition check_privileges ::
  "args \<Rightarrow> jvalue \<Rightarrow> jvalue \<Rightarrow> nat \<Rightarrow> world \<Rightarrow> (exn + unit) \<times> world" where
  "check_privileges a role role_privileges p w =
     (case then_getitem (getitem role_privileges role) (JStr ''indices'') of
        Inl e \<Rightarrow> (Inl e, w)
      | Inr indices \<Rightarrow>
     (case then_getitem (getitem role_privileges role) (JStr ''applications'') of
        Inl e \<Rightarrow> (Inl e, w)
      | Inr applications \<Rightarrow>
     (case iterate indices of
        Inl e \<Rightarrow> (Inl e, w)
      | Inr index_entries \<Rightarrow>
     (case indices_loop a role p index_entries w of
        (Inl e, w1) \<Rightarrow> (Inl e, w1)
      | (Inr u, w1) \<Rightarrow>
     (case iterate applications of
        Inl e \<Rightarrow> (Inl e, w1)
      | Inr apps \<Rightarrow> applications_loop a role p apps w1)))))"

text \<open>
  The loop of \<^verbatim>\<open>_print_user\<close> over \<^verbatim>\<open>set(user_properties["roles"])\<close>, the
  keys of the roles dictionary as they were when the loop started. A set of several
  elements has no specified order; the keys are taken in insertion order.
\<close>

fun roles_loop ::
  "args \<Rightarrow> nat \<Rightarrow> bool \<Rightarrow> jvalue \<Rightarrow> jvalue list \<Rightarrow> world \<Rightarrow> (exn + unit) \<times> world" where
  "roles_loop a p check_roles role_privileges [] w = (Inr (), w)"
| "roles_loop a p check_roles role_privileges (role # rest) w =
     (let w1 = (if eq_str role ''superuser''
                then ptprint [Lit (CHR 0x1B # ''[0mRole: '' @ CHR 0x1B # ''[31m''), Fmt role]
                       ''INFO'' (\<not> json a) 8 w
                else ptprint [Lit ''Role: '', Fmt role] ''INFO'' (\<not> json a) 8 w)
      in if check_roles
         then (case check_privileges a role role_privileges p w1 of
                 (Inl e, w2) \<Rightarrow> (Inl e, w2)
               | (Inr u, w2) \<Rightarrow> roles_loop a p check_roles role_privileges rest w2)
         else roles_loop a p check_roles role_privileges rest
                (ptprint [Lit ''Could not enumerate privileges''] ''ERROR'' (\<not> json a) 4 w1))"

text \<open>\<^verbatim>\<open>Users._print_user\<close>, with the user-properties object given by its address.\<close>

definition print_user :: "args \<Rightarrow> nat \<Rightarrow> bool \<Rightarrow> jvalue \<Rightarrow> world \<Rightarrow> (exn + unit) \<times> world" where
  "print_user a p check_roles role_privileges w =
     (let user_properties = heap w ! p in
      roles_loop a p check_roles role_privileges (remdups (map fst (roles user_properties)))
        (ptprint [Lit ''Email: '', Fmt (email user_properties)] ''INFO'' (\<not> json a) 8
           (ptprint [Lit ''Found user: '', Fmt (username user_properties)]
              ''INFO'' (\<not> json a) 4 w)))"

text \<open>
  The body of the loop of \<^verbatim>\<open>Users.run\<close> for one entry of the users dictionary.
  The user-properties dictionary is a new object; the report node refers to it, and
  \<^verbatim>\<open>_print_user\<close> goes on changing it.
\<close>

definition user_step ::
  "args \<Rightarrow> bool \<Rightarrow> response \<Rightarrow> jvalue \<Rightarrow> jvalue \<Rightarrow> world \<Rightarrow> (exn + unit) \<times> world" where
  "user_step a check_roles response users entry w =
     (case getitem users entry of
        Inl e \<Rightarrow> (Inl e, w)
      | Inr user \<Rightarrow>
     (case getitem user (JStr ''roles'') of
        Inl e \<Rightarrow> (Inl e, w)
      | Inr user_roles \<Rightarrow>
     (case iterate user_roles of
        Inl e \<Rightarrow> (Inl e, w)
      | Inr role_names \<Rightarrow>
     (case dict_of [] (zip role_names [[]]) of
        Inl e \<Rightarrow> (Inl e, w)
      | Inr roles_dict \<Rightarrow>
     (case getitem user (JStr ''username'') of
        Inl e \<Rightarrow> (Inl e, w)
      | Inr name \<Rightarrow>
     (case getitem user (JStr ''email'') of
        Inl e \<Rightarrow> (Inl e, w)
      | Inr mail \<Rightarrow>
          (let p = length (heap w);
               w1 = w\<lparr>heap := heap w @ [\<lparr>username = name, email = mail, roles = roles_dict\<rparr>]\<rparr>;
               w2 = add_node (create_node_object ''user'' (Ref p)) w1
           in (case response_json response of
                 Inl e \<Rightarrow> (Inl e, w2)
               | Inr role_privileges \<Rightarrow> print_user a p check_roles role_privileges w2))))))))"

fun users_loop ::
  "args \<Rightarrow> bool \<Rightarrow> response \<Rightarrow> jvalue \<Rightarrow> jvalue list \<Rightarrow> world \<Rightarrow> (exn + unit) \<times> world" where
  "users_loop a check_roles response users [] w = (Inr (), w)"
| "users_loop a check_roles response users (entry # rest) w =
     (case user_step a check_roles response users entry w of
        (Inl e, w1) \<Rightarrow> (Inl e, w1)
      | (Inr u, w1) \<Rightarrow> users_loop a check_roles response users rest w1)"

definition users_run :: "args \<Rightarrow> client \<Rightarrow> world \<Rightarrow> (exn + unit) \<times> world" where
  "users_run a c w0 =
     (case send_request c (url a @ ''_security/user'') w0 of
        (Inl e, w) \<Rightarrow> (Inl e, w)
      | (Inr r, w) \<Rightarrow>
          if status_code r \<noteq> 200
          then (Inr (),
                ptprint [Lit ''Could not enumerate users. Received status code: '',
                         Fmt_int (status_code r)] ''ERROR'' (\<not> json a) 4 w)
          else
            (case response_json r of
               Inl e \<Rightarrow> (Inl e, w)
             | Inr users \<Rightarrow>
            (case send_request c (url a @ ''_security/role'') w of
               (Inl e, w1) \<Rightarrow> (Inl e, w1)
             | (Inr response, w1) \<Rightarrow>
            (case iterate users of
               Inl e \<Rightarrow> (Inl e, w1)
             | Inr entries \<Rightarrow>
                 users_loop a (status_code response = 200) response users entries w1))))"

section \<open>What the user enumeration records\<close>

text \<open>
  The role names held by every dictionary object, in the order of their addresses.
\<close>

definition role_keys :: "world \<Rightarrow> jvalue list list" where
  "role_keys w = map (\<lambda>user_properties. map fst (roles user_properties)) (heap w)"

text \<open>
  The roles a report node holds: the keys of the \<^verbatim>\<open>roles\<close> dictionary of the object
  the node refers to.
\<close>

definition recorded_roles :: "world \<Rightarrow> node \<Rightarrow> jvalue list" where
  "recorded_roles w n =
     (case properties n of
        Ref p \<Rightarrow> if p < length (heap w) then map fst (roles (heap w ! p)) else []
      | Dict d \<Rightarrow> [])"

text \<open>
  The role a printed line names: the two role lines of \<^verbatim>\<open>_print_user\<close> name one,
  every other line names none.
\<close>

fun role_of_text :: "part list \<Rightarrow> jvalue list" where
  "role_of_text [Lit s, Fmt v] =
     (if s = ''Role: '' \<or> s = CHR 0x1B # ''[0mRole: '' @ CHR 0x1B # ''[31m'' then [v] else [])"
| "role_of_text t = []"

definition printed_roles :: "call list \<Rightarrow> jvalue list" where
  "printed_roles ps = concat (map (\<lambda>p. role_of_text (call_text p)) ps)"

text \<open>
  The roles a user has according to the answer of \<^verbatim>\<open>/_security/user\<close>: what
  \<^verbatim>\<open>users[entry]["roles"]\<close> yields when iterated.
\<close>

definition user_role_list :: "jvalue \<Rightarrow> jvalue \<Rightarrow> jvalue list" where
  "user_role_list users entry =
     (case then_getitem (getitem users entry) (JStr ''roles'') of
        Inl e \<Rightarrow> []
      | Inr user_roles \<Rightarrow> (case iterate user_roles of Inl e \<Rightarrow> [] | Inr xs \<Rightarrow> xs))"

text \<open>
  Three relations between the world before and after a piece of the enumeration, used
  in the proofs. A quiet piece leaves the report nodes and all role names alone and
  prints no role line.
\<close>

definition quiet :: "world \<Rightarrow> world \<Rightarrow> bool" where
  "quiet w w' \<longleftrightarrow>
     nodes w' = nodes w \<and> role_keys w' = role_keys w \<and>
     (\<exists>ps. printed w' = printed w @ ps \<and> printed_roles ps = [])"

text \<open>
  A piece that prints role lines for \<open>rs\<close>: for all of them when it returns, for an
  initial part when it raises.
\<close>

definition role_lines :: "jvalue list \<Rightarrow> exn + unit \<Rightarrow> world \<Rightarrow> world \<Rightarrow> bool" where
  "role_lines rs res w w' \<longleftrightarrow>
     nodes w' = nodes w \<and> role_keys w' = role_keys w \<and>
     (\<exists>ps. printed w' = printed w @ ps \<and> prefix (printed_roles ps) rs \<and>
           (res = Inr () \<longrightarrow> printed_roles ps = rs))"

text \<open>
  A piece that records users: one user node per role list in \<open>rss\<close>, each node
  referring to a new object with exactly these role names, and role lines that follow
  those lists.
\<close>

definition recorded :: "jvalue list list \<Rightarrow> exn + unit \<Rightarrow> world \<Rightarrow> world \<Rightarrow> bool" where
  "recorded rss res w w' \<longleftrightarrow>
     nodes w' = nodes w @ map (\<lambda>p. create_node_object ''user'' (Ref p))
                            [length (heap w) ..< length (heap w) + length rss] \<and>
     role_keys w' = role_keys w @ rss \<and>
     (\<exists>ps. printed w' = printed w @ ps \<and> prefix (printed_roles ps) (concat rss) \<and>
           (res = Inr () \<longrightarrow> printed_roles ps = concat rss))"

section \<open>Concrete inputs\<close>

text \<open>A client that answers every request with the same response.\<close>

definition always :: "response \<Rightarrow> client" where
  "always r u = Inr r"

text \<open>The world before a probe starts, and the arguments of a verbose console run.\<close>

definition world0 :: world where
  "world0 = \<lparr>sent = [], printed = [], nodes = [], vulnerabilities = [], heap = []\<rparr>"

definition args0 :: args where
  "args0 = \<lparr>url = ''http://10.0.0.5:9200/'', verbose = True, json = False\<rparr>"

text \<open>The four scenarios of the specification.\<close>

definition scenario_A :: response where
  \<open>scenario_A =
     \<lparr>status_code = 401,
      headers = [(''Content-Type'', ''application/json; charset=utf-8'')],
      response_text = ''{"error":{"root_cause":[{"type":"security_exception"}]}}'',
      decoded = Some (JObj [(''error'', JObj [(''root_cause'',
                  JArr [JObj [(''type'', JStr ''security_exception'')]])])])\<rparr>\<close>

definition scenario_B :: response where
  \<open>scenario_B =
     \<lparr>status_code = 200,
      headers = [(''Content-Type'', ''application/json''),
                 (''X-elastic-product'', ''Elasticsearch'')],
      response_text = ''{"tagline":"You Know, for Search"}'',
      decoded = Some (JObj [(''tagline'', JStr ''You Know, for Search'')])\<rparr>\<close>

definition scenario_C :: response where
  \<open>scenario_C =
     \<lparr>status_code = 200,
      headers = [(''Content-Type'', ''text/html'')],
      response_text = ''<html><body>Elasticsearch</body></html>'',
      decoded = None\<rparr>\<close>

definition scenario_D :: response where
  \<open>scenario_D =
     \<lparr>status_code = 404,
      headers = [(''Content-Type'', ''application/json'')],
      response_text = ''{"error":"no such index","status":404}'',
      decoded = Some (JObj [(''error'', JStr ''no such index''), (''status'', JInt 404)])\<rparr>\<close>

text \<open>Unauthorized answers that declare JSON: a body that is not JSON at all.\<close>

definition unauthorized_html :: response where
  \<open>unauthorized_html =
     \<lparr>status_code = 401,
      headers = [(''Content-Type'', ''application/json'')],
      response_text = ''<html>401 Authorization Required</html>'',
      decoded = None\<rparr>\<close>

text \<open>An empty list of root causes, and an error that is a plain string.\<close>

definition unauthorized_no_cause :: response where
  \<open>unauthorized_no_cause =
     \<lparr>status_code = 401,
      headers = [(''Content-Type'', ''application/json'')],
      response_text = ''{"error":{"root_cause":[]}}'',
      decoded = Some (JObj [(''error'', JObj [(''root_cause'', JArr [])])])\<rparr>\<close>

definition unauthorized_string_error :: response where
  \<open>unauthorized_string_error =
     \<lparr>status_code = 401,
      headers = [(''Content-Type'', ''application/json'')],
      response_text = ''{"error":"Unauthorized"}'',
      decoded = Some (JObj [(''error'', JStr ''Unauthorized'')])\<rparr>\<close>

text \<open>A well-shaped error of another kind.\<close>

definition other_kind_body :: jvalue where
  "other_kind_body =
     JObj [(''error'', JObj [(''root_cause'',
             JArr [JObj [(''type'', JStr ''authentication_error'')]])])]"

definition unauthorized_other_kind :: response where
  \<open>unauthorized_other_kind =
     \<lparr>status_code = 401,
      headers = [(''Content-Type'', ''application/json'')],
      response_text = ''{"error":{"root_cause":[{"type":"authentication_error"}]}}'',
      decoded = Some other_kind_body\<rparr>\<close>

text \<open>An error without root causes: the missing key is caught.\<close>

definition unauthorized_no_root_cause_key :: response where
  \<open>unauthorized_no_root_cause_key =
     \<lparr>status_code = 401,
      headers = [(''Content-Type'', ''application/json'')],
      response_text = ''{"error":{"reason":"missing token"}}'',
      decoded = Some (JObj [(''error'', JObj [(''reason'', JStr ''missing token'')])])\<rparr>\<close>

text \<open>A body that names the product but is not JSON.\<close>

definition unauthorized_plain_mention :: response where
  \<open>unauthorized_plain_mention =
     \<lparr>status_code = 401,
      headers = [(''Content-Type'', ''application/json'')],
      response_text = ''Elasticsearch: authentication required'',
      decoded = None\<rparr>\<close>

text \<open>A body that names the product inside a well-shaped security exception.\<close>

definition unauthorized_mention :: response where
  \<open>unauthorized_mention =
     \<lparr>status_code = 401,
      headers = [(''Content-Type'', ''application/json'')],
      response_text = ''{"error":{"root_cause":[{"type":"security_exception"}]},"product":"Elasticsearch"}'',
      decoded = Some (JObj [(''error'', JObj [(''root_cause'',
                  JArr [JObj [(''type'', JStr ''security_exception'')]])]),
                  (''product'', JStr ''Elasticsearch'')])\<rparr>\<close>

text \<open>
  Answers with status 200: another product header, no product header and no mention of
  the product, no product header but a mention.
\<close>

definition ok_other_product :: response where
  \<open>ok_other_product =
     \<lparr>status_code = 200,
      headers = [(''Content-Type'', ''application/json''), (''X-elastic-product'', ''Kibana'')],
      response_text = ''{"name":"kibana","search":"elasticsearch"}'',
      decoded = Some (JObj [(''name'', JStr ''kibana''), (''search'', JStr ''elasticsearch'')])\<rparr>\<close>

definition ok_no_markers :: response where
  \<open>ok_no_markers =
     \<lparr>status_code = 200,
      headers = [(''Content-Type'', ''application/json'')],
      response_text = ''{"status":"green"}'',
      decoded = Some (JObj [(''status'', JStr ''green'')])\<rparr>\<close>

definition ok_no_header_mention :: response where
  \<open>ok_no_header_mention =
     \<lparr>status_code = 200,
      headers = [(''content-type'', ''application/json; charset=UTF-8'')],
      response_text = ''{"tagline":"You Know, for Search","cluster_name":"elasticsearch"}'',
      decoded = Some (JObj [(''tagline'', JStr ''You Know, for Search''),
                            (''cluster_name'', JStr ''elasticsearch'')])\<rparr>\<close>

text \<open>
  A target for the software test: the request for the version fails in transport, the
  nodes answer lists one module, and the second line of the plugins answer has only
  two words.
\<close>

definition nodes_answer :: response where
  \<open>nodes_answer =
     \<lparr>status_code = 200,
      headers = [(''Content-Type'', ''application/json'')],
      response_text = ''{"nodes":{"n1":{"modules":[{"name":"aggregations","version":"8.11.1","description":"Adds aggregations"}]}}}'',
      decoded = Some (JObj [(''nodes'', JObj [(''n1'', JObj [(''modules'',
                  JArr [JObj [(''name'', JStr ''aggregations''), (''version'', JStr ''8.11.1''),
                              (''description'', JStr ''Adds aggregations'')]])])])])\<rparr>\<close>

definition plugins_answer :: response where
  \<open>plugins_answer =
     \<lparr>status_code = 200,
      headers = [(''Content-Type'', ''text/plain'')],
      response_text = ''node-1 analysis-icu 8.11.1'' @ [CHR 0x0A] @ ''node-1 broken'' @ [CHR 0x0A],
      decoded = None\<rparr>\<close>

definition sw_client :: client where
  "sw_client u =
     (if u = ''http://10.0.0.5:9200/'' then Inl (OtherException ''connection reset'')
      else if u = ''http://10.0.0.5:9200/_nodes'' then Inr nodes_answer
      else if u = ''http://10.0.0.5:9200/_cat/plugins'' then Inr plugins_answer
      else Inl (OtherException ''unexpected request''))"

text \<open>
  A target for the user enumeration: a user with three roles and a user with none, and
  a roles answer that describes the first of the three.
\<close>

definition users_value :: jvalue where
  "users_value =
     JObj [(''elastic'', JObj [(''username'', JStr ''elastic''),
                               (''roles'', JArr [JStr ''superuser'', JStr ''kibana_admin'',
                                                 JStr ''monitoring_user'']),
                               (''email'', JNull)]),
           (''guest'', JObj [(''username'', JStr ''guest''),
                             (''roles'', JArr []),
                             (''email'', JStr ''guest@example.org'')])]"

definition users_answer :: response where
  \<open>users_answer =
     \<lparr>status_code = 200,
      headers = [(''Content-Type'', ''application/json'')],
      response_text = ''{"elastic":{"username":"elastic","roles":["superuser","kibana_admin","monitoring_user"],"email":null},"guest":{"username":"guest","roles":[],"email":"guest@example.org"}}'',
      decoded = Some users_value\<rparr>\<close>

definition roles_answer :: response where
  \<open>roles_answer =
     \<lparr>status_code = 200,
      headers = [(''Content-Type'', ''application/json'')],
      response_text = ''{"superuser":{"indices":[{"names":["*"],"privileges":["all"],"allow_restricted_indices":false}],"applications":[{"application":"*","privileges":["*"]}]}}'',
      decoded = Some (JObj [(''superuser'', JObj
                  [(''indices'', JArr [JObj [(''names'', JArr [JStr ''*'']),
                                             (''privileges'', JArr [JStr ''all'']),
                                             (''allow_restricted_indices'', JBool False)]]),
                   (''applications'', JArr [JObj [(''application'', JStr ''*''),
                                                  (''privileges'', JArr [JStr ''*''])]])])])\<rparr>\<close>

definition users_client :: client where
  "users_client u =
     (if u = ''http://10.0.0.5:9200/_security/user'' then Inr users_answer
      else if u = ''http://10.0.0.5:9200/_security/role'' then Inr roles_answer
      else Inl (OtherException ''unexpected request''))"

section \<open>Properties of the availability test\<close>

lemmas is_elastic_defs =
  is_elastic_run_def send_request_def ptprint_def info_lines_def

text \<open>The \<^verbatim>\<open>INFO\<close> lines show no verdict.\<close>

lemma verdicts_append [simp]: "verdicts (xs @ ys) = verdicts xs @ verdicts ys"
  by (simp add: verdicts_def)

lemma verdicts_info_lines [simp]: "verdicts (info_lines a r) = []"
  by (cases "verbose a") (simp_all add: verdicts_def verdict_of_def info_lines_def)

lemma verdicts_single: "verdicts [p] = verdict_of p"
  by (simp add: verdicts_def)

lemmas outcome_defs =
  is_elastic_outcome_def verdicts_single verdict_of_def

text \<open>
  C4. When the content-type header is missing, or present without
  \<^verbatim>\<open>application/json\<close> in it, the availability test returns normally whatever the
  status code, the other headers and the body are. Besides the request and the
  \<^verbatim>\<open>INFO\<close> lines of a verbose run, all it does is one printer call: the line "The
  host is not running ElasticSearch" with bullet \<^verbatim>\<open>VULN\<close> and the condition
  \<^verbatim>\<open>not args.json\<close>. So the verdict NotDetected is shown in every console run, and
  in a JSON run the printer is called but shows nothing.
\<close>

theorem non_json_not_detected:
  assumes "c (url a) = Inr r"
    and "\<forall>ct. headers_getitem (headers r) ''content-type'' = Inr ct
           \<longrightarrow> \<not> str_in ''application/json'' ct"
  shows "is_elastic_run a c w0 =
           (Inr (), w0\<lparr>sent := sent w0 @ [url a],
                      printed := printed w0 @ info_lines a r @
                        [Ptprint [Lit ''The host is not running ElasticSearch'']
                           ''VULN'' (\<not> json a) 4]\<rparr>) \<and>
         is_elastic_outcome a c w0 = (Inr (), if json a then [] else [NotDetected])"
proof -
  have run: "is_elastic_run a c w0 =
           (Inr (), w0\<lparr>sent := sent w0 @ [url a],
                      printed := printed w0 @ info_lines a r @
                        [Ptprint [Lit ''The host is not running ElasticSearch'']
                           ''VULN'' (\<not> json a) 4]\<rparr>)"
  proof (cases "headers_getitem (headers r) ''content-type''")
    case (Inl e)
    then obtain k where "e = KeyError k"
      by (auto simp: headers_getitem_def split: option.splits)
    with Inl assms(1) show ?thesis
      by (simp add: is_elastic_defs)
  next
    case (Inr ct)
    with assms show ?thesis
      by (simp add: is_elastic_defs)
  qed
  show ?thesis
    by (simp add: run outcome_defs)
qed

theorem non_json_not_detected_witness:
  "status_code scenario_C = 200 \<and> check_text scenario_C \<and>
   printed (snd (is_elastic_run args0 (always scenario_C) world0)) =
     [Ptprint [Lit ''Sending request to: '', Fmt (JStr ''http://10.0.0.5:9200/'')]
        ''INFO'' True 4,
      Ptprint [Lit ''Returned response status: '', Fmt_int 200] ''INFO'' True 4,
      Ptprint [Lit ''The host is not running ElasticSearch''] ''VULN'' True 4] \<and>
   is_elastic_outcome args0 (always scenario_C) world0 = (Inr (), [NotDetected])"
proof -
  have client: "always scenario_C (url args0) = Inr scenario_C"
    by (simp add: always_def)
  have ct: "headers_getitem (headers scenario_C) ''content-type'' = Inr ''text/html''"
    by code_simp
  have no_json: "\<not> str_in ''application/json'' ''text/html''"
    by code_simp
  have gate: "\<forall>ct. headers_getitem (headers scenario_C) ''content-type'' = Inr ct
                 \<longrightarrow> \<not> str_in ''application/json'' ct"
    using ct no_json by simp
  have status: "status_code scenario_C = 200"
    by (simp add: scenario_C_def)
  have mention: "check_text scenario_C"
    by code_simp
  have start: "url args0 = ''http://10.0.0.5:9200/''" "verbose args0" "\<not> json args0"
    "printed world0 = []"
    by (simp_all add: args0_def world0_def)
  from non_json_not_detected
         [where c = "always scenario_C" and a = args0 and r = scenario_C and ?w0.0 = world0,
          OF client gate] status mention start
  show ?thesis by (simp add: info_lines_def)
qed

text \<open>
  C6. With a JSON content-type, status 401, a body that does not name the product and
  decodes to a value whose \<^verbatim>\<open>["error"]["root_cause"][0]["type"]\<close> is the string
  \<^verbatim>\<open>security_exception\<close>, the availability test returns normally and, besides the
  request and the \<^verbatim>\<open>INFO\<close> lines, makes one printer call: the line "The host might
  be running ElasticSearch" with bullet \<^verbatim>\<open>VULN\<close> and the condition
  \<^verbatim>\<open>not args.json\<close>. So the verdict Likely is shown in every console run.
\<close>

theorem security_exception_likely:
  assumes "c (url a) = Inr r"
    and "headers_getitem (headers r) ''content-type'' = Inr ct"
    and "str_in ''application/json'' ct"
    and "status_code r = 401"
    and "\<not> check_text r"
    and "decoded r = Some body"
    and "then_getitem (then_getitem (then_getitem (getitem body (JStr ''error''))
           (JStr ''root_cause'')) (JInt 0)) (JStr ''type'') = Inr (JStr ''security_exception'')"
  shows "is_elastic_run a c w0 =
           (Inr (), w0\<lparr>sent := sent w0 @ [url a],
                      printed := printed w0 @ info_lines a r @
                        [Ptprint [Lit ''The host might be running ElasticSearch'']
                           ''VULN'' (\<not> json a) 4]\<rparr>) \<and>
         is_elastic_outcome a c w0 = (Inr (), if json a then [] else [Likely])"
proof -
  have run: "is_elastic_run a c w0 =
           (Inr (), w0\<lparr>sent := sent w0 @ [url a],
                      printed := printed w0 @ info_lines a r @
                        [Ptprint [Lit ''The host might be running ElasticSearch'']
                           ''VULN'' (\<not> json a) 4]\<rparr>)"
    using assms by (simp add: is_elastic_defs response_json_def)
  show ?thesis
    by (simp add: run outcome_defs)
qed

theorem security_exception_likely_witness:
  "printed (snd (is_elastic_run args0 (always scenario_A) world0)) =
     [Ptprint [Lit ''Sending request to: '', Fmt (JStr ''http://10.0.0.5:9200/'')]
        ''INFO'' True 4,
      Ptprint [Lit ''Returned response status: '', Fmt_int 401] ''INFO'' True 4,
      Ptprint [Lit ''The host might be running ElasticSearch''] ''VULN'' True 4] \<and>
   is_elastic_outcome args0 (always scenario_A) world0 = (Inr (), [Likely])"
proof -
  let ?body = "JObj [(''error'', JObj [(''root_cause'',
                 JArr [JObj [(''type'', JStr ''security_exception'')]])])]"
  have client: "always scenario_A (url args0) = Inr scenario_A"
    by (simp add: always_def)
  have ct: "headers_getitem (headers scenario_A) ''content-type''
              = Inr ''application/json; charset=utf-8''"
    by code_simp
  have is_json: "str_in ''application/json'' ''application/json; charset=utf-8''"
    by code_simp
  have status: "status_code scenario_A = 401"
    by (simp add: scenario_A_def)
  have no_mention: "\<not> check_text scenario_A"
    by code_simp
  have body: "decoded scenario_A = Some ?body"
    by (simp add: scenario_A_def)
  have kind: "then_getitem (then_getitem (then_getitem (getitem ?body (JStr ''error''))
                (JStr ''root_cause'')) (JInt 0)) (JStr ''type'') = Inr (JStr ''security_exception'')"
    by code_simp
  have start: "url args0 = ''http://10.0.0.5:9200/''" "verbose args0" "\<not> json args0"
    "printed world0 = []"
    by (simp_all add: args0_def world0_def)
  from security_exception_likely
         [where c = "always scenario_A" and a = args0 and r = scenario_A and ?w0.0 = world0,
          OF client ct is_json status no_mention body kind] status start
  show ?thesis by (simp add: info_lines_def)
qed

text \<open>
  C7. With a JSON content-type, status 200 and the header \<^verbatim>\<open>X-elastic-product\<close>
  equal to \<^verbatim>\<open>Elasticsearch\<close>, the availability test returns normally, whether or
  not the body names the product, and, besides the request and the \<^verbatim>\<open>INFO\<close>
  lines, makes one printer call: the line "The host is running ElasticSearch" with
  bullet \<^verbatim>\<open>VULN\<close> and the condition \<^verbatim>\<open>not args.json\<close>. So the verdict
  Confirmed is shown in every console run.
\<close>

theorem product_header_confirmed:
  assumes "c (url a) = Inr r"
    and "headers_getitem (headers r) ''content-type'' = Inr ct"
    and "str_in ''application/json'' ct"
    and "status_code r = 200"
    and "headers_getitem (headers r) ''X-elastic-product'' = Inr ''Elasticsearch''"
  shows "is_elastic_run a c w0 =
           (Inr (), w0\<lparr>sent := sent w0 @ [url a],
                      printed := printed w0 @ info_lines a r @
                        [Ptprint [Lit ''The host is running ElasticSearch'']
                           ''VULN'' (\<not> json a) 4]\<rparr>) \<and>
         is_elastic_outcome a c w0 = (Inr (), if json a then [] else [Confirmed])"
proof -
  have run: "is_elastic_run a c w0 =
           (Inr (), w0\<lparr>sent := sent w0 @ [url a],
                      printed := printed w0 @ info_lines a r @
                        [Ptprint [Lit ''The host is running ElasticSearch'']
                           ''VULN'' (\<not> json a) 4]\<rparr>)"
    using assms by (simp add: is_elastic_defs)
  show ?thesis
    by (simp add: run outcome_defs)
qed

theorem product_header_confirmed_witness:
  "\<not> check_text scenario_B \<and>
   printed (snd (is_elastic_run args0 (always scenario_B) world0)) =
     [Ptprint [Lit ''Sending request to: '', Fmt (JStr ''http://10.0.0.5:9200/'')]
        ''INFO'' True 4,
      Ptprint [Lit ''Returned response status: '', Fmt_int 200] ''INFO'' True 4,
      Ptprint [Lit ''The host is running ElasticSearch''] ''VULN'' True 4] \<and>
   is_elastic_outcome args0 (always scenario_B) world0 = (Inr (), [Confirmed])"
proof -
  have client: "always scenario_B (url args0) = Inr scenario_B"
    by (simp add: always_def)
  have ct: "headers_getitem (headers scenario_B) ''content-type'' = Inr ''application/json''"
    by code_simp
  have is_json: "str_in ''application/json'' ''application/json''"
    by code_simp
  have status: "status_code scenario_B = 200"
    by (simp add: scenario_B_def)
  have product: "headers_getitem (headers scenario_B) ''X-elastic-product'' = Inr ''Elasticsearch''"
    by code_simp
  have no_mention: "\<not> check_text scenario_B"
    by code_simp
  have start: "url args0 = ''http://10.0.0.5:9200/''" "verbose args0" "\<not> json args0"
    "printed world0 = []"
    by (simp_all add: args0_def world0_def)
  from product_header_confirmed
         [where c = "always scenario_B" and a = args0 and r = scenario_B and ?w0.0 = world0,
          OF client ct is_json status product] no_mention status start
  show ?thesis by (simp add: info_lines_def)
qed

text \<open>
  C8. With a JSON content-type and a status code that is neither 200 nor 401, the
  availability test returns normally, whatever the other headers and the body are,
  and, besides the request and the \<^verbatim>\<open>INFO\<close> lines, makes one printer call: the
  line "The host is not running ElasticSearch" with bullet \<^verbatim>\<open>VULN\<close> and the
  condition \<^verbatim>\<open>not args.json\<close>. So the verdict NotDetected is shown in every
  console run.
\<close>

theorem other_status_not_detected:
  assumes "c (url a) = Inr r"
    and "headers_getitem (headers r) ''content-type'' = Inr ct"
    and "str_in ''application/json'' ct"
    and "status_code r \<noteq> 200"
    and "status_code r \<noteq> 401"
  shows "is_elastic_run a c w0 =
           (Inr (), w0\<lparr>sent := sent w0 @ [url a],
                      printed := printed w0 @ info_lines a r @
                        [Ptprint [Lit ''The host is not running ElasticSearch'']
                           ''VULN'' (\<not> json a) 4]\<rparr>) \<and>
         is_elastic_outcome a c w0 = (Inr (), if json a then [] else [NotDetected])"
proof -
  have run: "is_elastic_run a c w0 =
           (Inr (), w0\<lparr>sent := sent w0 @ [url a],
                      printed := printed w0 @ info_lines a r @
                        [Ptprint [Lit ''The host is not running ElasticSearch'']
                           ''VULN'' (\<not> json a) 4]\<rparr>)"
    using assms by (simp add: is_elastic_defs)
  show ?thesis
    by (simp add: run outcome_defs)
qed

theorem other_status_not_detected_witness:
  "printed (snd (is_elastic_run args0 (always scenario_D) world0)) =
     [Ptprint [Lit ''Sending request to: '', Fmt (JStr ''http://10.0.0.5:9200/'')]
        ''INFO'' True 4,
      Ptprint [Lit ''Returned response status: '', Fmt_int 404] ''INFO'' True 4,
      Ptprint [Lit ''The host is not running ElasticSearch''] ''VULN'' True 4] \<and>
   is_elastic_outcome args0 (always scenario_D) world0 = (Inr (), [NotDetected])"
proof -
  have client: "always scenario_D (url args0) = Inr scenario_D"
    by (simp add: always_def)
  have ct: "headers_getitem (headers scenario_D) ''content-type'' = Inr ''application/json''"
    by code_simp
  have is_json: "str_in ''application/json'' ''application/json''"
    by code_simp
  have status: "status_code scenario_D = 404"
    by (simp add: scenario_D_def)
  have not_200: "status_code scenario_D \<noteq> 200"
    by (simp add: scenario_D_def)
  have not_401: "status_code scenario_D \<noteq> 401"
    by (simp add: scenario_D_def)
  have start: "url args0 = ''http://10.0.0.5:9200/''" "verbose args0" "\<not> json args0"
    "printed world0 = []"
    by (simp_all add: args0_def world0_def)
  from other_status_not_detected
         [where c = "always scenario_D" and a = args0 and r = scenario_D and ?w0.0 = world0,
          OF client ct is_json not_200 not_401] status start
  show ?thesis by (simp add: info_lines_def)
qed

text \<open>
  C1. The claim says that the availability test never raises for a malformed body. The
  code decodes the body before it enters the \<^verbatim>\<open>try\<close> block and catches
  \<^verbatim>\<open>KeyError\<close> only. So an unauthorized answer that declares JSON ends the test
  with an exception, and without a verdict, when its body is not JSON
  (\<^verbatim>\<open>JSONDecodeError\<close>), when the list of root causes is empty
  (\<^verbatim>\<open>IndexError\<close>), and when the error is a string instead of a dictionary
  (\<^verbatim>\<open>TypeError\<close>): in these three console runs the only printer calls are the
  two \<^verbatim>\<open>INFO\<close> lines. Only a missing key is turned into a verdict.
\<close>

theorem malformed_body_raises:
  "is_elastic_outcome args0 (always unauthorized_html) world0 = (Inl JSONDecodeError, []) \<and>
   is_elastic_outcome args0 (always unauthorized_no_cause) world0 = (Inl IndexError, []) \<and>
   is_elastic_outcome args0 (always unauthorized_string_error) world0 = (Inl TypeError, []) \<and>
   is_elastic_outcome args0 (always unauthorized_no_root_cause_key) world0
     = (Inr (), [NotDetected]) \<and>
   printed (snd (is_elastic_run args0 (always unauthorized_html) world0))
     = info_lines args0 unauthorized_html \<and>
   printed (snd (is_elastic_run args0 (always unauthorized_no_cause) world0))
     = info_lines args0 unauthorized_no_cause \<and>
   printed (snd (is_elastic_run args0 (always unauthorized_string_error) world0))
     = info_lines args0 unauthorized_string_error \<and>
   \<not> json args0"
  by code_simp

text \<open>
  C2. The claim says that an unauthorized JSON answer without the product name and with
  any error kind other than \<^verbatim>\<open>security_exception\<close> gets the verdict NotDetected.
  The \<^verbatim>\<open>if\<close>/\<^verbatim>\<open>elif\<close> of the code has no \<^verbatim>\<open>else\<close>: for a well-shaped
  error of another kind the test returns without printing any verdict. In this console
  run the only printer calls are the two \<^verbatim>\<open>INFO\<close> lines.
\<close>

theorem other_error_kind_silent:
  "\<not> check_text unauthorized_other_kind \<and>
   decoded unauthorized_other_kind = Some other_kind_body \<and>
   then_getitem (then_getitem (then_getitem (getitem other_kind_body (JStr ''error''))
       (JStr ''root_cause'')) (JInt 0)) (JStr ''type'') = Inr (JStr ''authentication_error'') \<and>
   is_elastic_outcome args0 (always unauthorized_other_kind) world0 = (Inr (), []) \<and>
   printed (snd (is_elastic_run args0 (always unauthorized_other_kind) world0))
     = info_lines args0 unauthorized_other_kind \<and>
   \<not> json args0"
  by code_simp

text \<open>
  C5. The claim says that an unauthorized JSON answer whose body names the product is
  Confirmed whether or not a structured error kind is present. The code calls
  \<^verbatim>\<open>response.json()\<close> before it looks at the text, so a body that names the product
  but is not JSON ends the test with \<^verbatim>\<open>JSONDecodeError\<close> and no verdict: in this
  console run the only printer calls are the two \<^verbatim>\<open>INFO\<close> lines.
\<close>

theorem plain_mention_raises:
  "check_text unauthorized_plain_mention \<and>
   is_elastic_outcome args0 (always unauthorized_plain_mention) world0
     = (Inl JSONDecodeError, []) \<and>
   printed (snd (is_elastic_run args0 (always unauthorized_plain_mention) world0))
     = info_lines args0 unauthorized_plain_mention \<and>
   \<not> json args0"
  by code_simp

text \<open>
  When the body does decode, the text check decides before the decoded value is looked
  at: the line "The host is running ElasticSearch" is printed whatever the value is.
\<close>

lemma decoded_mention_confirmed:
  assumes "c (url a) = Inr r"
    and "headers_getitem (headers r) ''content-type'' = Inr ct"
    and "str_in ''application/json'' ct"
    and "status_code r = 401"
    and "check_text r"
    and "decoded r = Some body"
  shows "is_elastic_run a c w0 =
           (Inr (), w0\<lparr>sent := sent w0 @ [url a],
                      printed := printed w0 @ info_lines a r @
                        [Ptprint [Lit ''The host is running ElasticSearch'']
                           ''VULN'' (\<not> json a) 4]\<rparr>)"
  using assms by (simp add: is_elastic_defs response_json_def)

lemma unauthorized_mention_example:
  "is_elastic_outcome args0 (always unauthorized_mention) world0 = (Inr (), [Confirmed])"
  by code_simp

text \<open>
  A missing key on the way to the error kind is caught, and the line "The host is
  probably not running ElasticSearch" is printed.
\<close>

lemma missing_key_not_detected:
  assumes "c (url a) = Inr r"
    and "headers_getitem (headers r) ''content-type'' = Inr ct"
    and "str_in ''application/json'' ct"
    and "status_code r = 401"
    and "\<not> check_text r"
    and "decoded r = Some body"
    and "then_getitem (then_getitem (then_getitem (getitem body (JStr ''error''))
           (JStr ''root_cause'')) (JInt 0)) (JStr ''type'') = Inl (KeyError k)"
  shows "is_elastic_run a c w0 =
           (Inr (), w0\<lparr>sent := sent w0 @ [url a],
                      printed := printed w0 @ info_lines a r @
                        [Ptprint [Lit ''The host is probably not running ElasticSearch'']
                           ''VULN'' (\<not> json a) 4]\<rparr>)"
  using assms by (simp add: is_elastic_defs response_json_def)

text \<open>
  C3, as stated, fails: with status 200 and a product header of another value the body
  is not consulted. Here the header is \<^verbatim>\<open>Kibana\<close>, the body names the product, and
  in this console run the only printer calls are the two \<^verbatim>\<open>INFO\<close> lines: no
  verdict is printed.
\<close>

theorem other_product_header_counterexample:
  "headers_getitem (headers ok_other_product) ''X-elastic-product'' = Inr ''Kibana'' \<and>
   check_text ok_other_product \<and>
   is_elastic_outcome args0 (always ok_other_product) world0 = (Inr (), []) \<and>
   is_elastic_outcome args0 (always ok_other_product) world0 \<noteq> (Inr (), [Confirmed]) \<and>
   printed (snd (is_elastic_run args0 (always ok_other_product) world0))
     = info_lines args0 ok_other_product \<and>
   \<not> json args0"
  by code_simp

text \<open>
  The branch for status 200 prints no negative verdict: without the header and without
  the product name in the body, the test returns in silence.
\<close>

lemma ok_no_markers_silent:
  "\<not> check_text ok_no_markers \<and>
   is_elastic_outcome args0 (always ok_no_markers) world0 = (Inr (), []) \<and>
   printed (snd (is_elastic_run args0 (always ok_no_markers) world0))
     = info_lines args0 ok_no_markers"
  by code_simp

text \<open>
  C3, amended. With a JSON content-type and status 200: when the header
  \<^verbatim>\<open>X-elastic-product\<close> is absent and the body names the product, the test returns
  normally and, besides the request and the \<^verbatim>\<open>INFO\<close> lines, makes one printer
  call: the line "The host is running ElasticSearch" with bullet \<^verbatim>\<open>VULN\<close> and the
  condition \<^verbatim>\<open>not args.json\<close>, so Confirmed is shown in every console run. When
  the header is present with a value other than \<^verbatim>\<open>Elasticsearch\<close>, the body is not
  consulted: the test returns normally and none of its printer calls, shown or not,
  has the text of the Confirmed line or of the Likely line.
\<close>

theorem ok_without_matching_header:
  assumes "c (url a) = Inr r"
    and "headers_getitem (headers r) ''content-type'' = Inr ct"
    and "str_in ''application/json'' ct"
    and "status_code r = 200"
  shows "(\<forall>e. headers_getitem (headers r) ''X-elastic-product'' = Inl e \<longrightarrow> check_text r \<longrightarrow>
            is_elastic_run a c w0 =
              (Inr (), w0\<lparr>sent := sent w0 @ [url a],
                         printed := printed w0 @ info_lines a r @
                           [Ptprint [Lit ''The host is running ElasticSearch'']
                              ''VULN'' (\<not> json a) 4]\<rparr>) \<and>
            is_elastic_outcome a c w0 = (Inr (), if json a then [] else [Confirmed])) \<and>
         (\<forall>v. headers_getitem (headers r) ''X-elastic-product'' = Inr v \<longrightarrow>
              v \<noteq> ''Elasticsearch'' \<longrightarrow>
            fst (is_elastic_run a c w0) = Inr () \<and>
            [Lit ''The host is running ElasticSearch''] \<notin> set (map call_text
               (drop (length (printed w0)) (printed (snd (is_elastic_run a c w0))))) \<and>
            [Lit ''The host might be running ElasticSearch''] \<notin> set (map call_text
               (drop (length (printed w0)) (printed (snd (is_elastic_run a c w0))))))"
proof (intro conjI allI impI)
  fix e
  assume absent: "headers_getitem (headers r) ''X-elastic-product'' = Inl e"
    and mention: "check_text r"
  from absent obtain k where "e = KeyError k"
    by (auto simp: headers_getitem_def split: option.splits)
  with absent mention assms show run: "is_elastic_run a c w0 =
      (Inr (), w0\<lparr>sent := sent w0 @ [url a],
                 printed := printed w0 @ info_lines a r @
                   [Ptprint [Lit ''The host is running ElasticSearch'']
                      ''VULN'' (\<not> json a) 4]\<rparr>)"
    by (simp add: is_elastic_defs)
  show "is_elastic_outcome a c w0 = (Inr (), if json a then [] else [Confirmed])"
    by (simp add: run outcome_defs)
next
  fix v
  assume other: "headers_getitem (headers r) ''X-elastic-product'' = Inr v"
    "v \<noteq> ''Elasticsearch''"
  with assms have run: "is_elastic_run a c w0 =
      (Inr (), w0\<lparr>sent := sent w0 @ [url a], printed := printed w0 @ info_lines a r\<rparr>)"
    by (simp add: is_elastic_defs)
  show "fst (is_elastic_run a c w0) = Inr ()"
    by (simp add: run)
  show "[Lit ''The host is running ElasticSearch''] \<notin> set (map call_text
          (drop (length (printed w0)) (printed (snd (is_elastic_run a c w0)))))"
    by (auto simp: run info_lines_def)
  show "[Lit ''The host might be running ElasticSearch''] \<notin> set (map call_text
          (drop (length (printed w0)) (printed (snd (is_elastic_run a c w0)))))"
    by (auto simp: run info_lines_def)
qed

theorem ok_without_matching_header_witness:
  "printed (snd (is_elastic_run args0 (always ok_no_header_mention) world0)) =
     [Ptprint [Lit ''Sending request to: '', Fmt (JStr ''http://10.0.0.5:9200/'')]
        ''INFO'' True 4,
      Ptprint [Lit ''Returned response status: '', Fmt_int 200] ''INFO'' True 4,
      Ptprint [Lit ''The host is running ElasticSearch''] ''VULN'' True 4] \<and>
   is_elastic_outcome args0 (always ok_no_header_mention) world0 = (Inr (), [Confirmed]) \<and>
   fst (is_elastic_run args0 (always ok_other_product) world0) = Inr () \<and>
   [Lit ''The host is running ElasticSearch''] \<notin> set (map call_text
      (printed (snd (is_elastic_run args0 (always ok_other_product) world0)))) \<and>
   [Lit ''The host might be running ElasticSearch''] \<notin> set (map call_text
      (printed (snd (is_elastic_run args0 (always ok_other_product) world0))))"
proof -
  have client1: "always ok_no_header_mention (url args0) = Inr ok_no_header_mention"
    by (simp add: always_def)
  have ct1: "headers_getitem (headers ok_no_header_mention) ''content-type''
               = Inr ''application/json; charset=UTF-8''"
    by code_simp
  have json1: "str_in ''application/json'' ''application/json; charset=UTF-8''"
    by code_simp
  have status1: "status_code ok_no_header_mention = 200"
    by (simp add: ok_no_header_mention_def)
  have absent: "headers_getitem (headers ok_no_header_mention) ''X-elastic-product''
                  = Inl (KeyError (JStr ''X-elastic-product''))"
    by code_simp
  have mention: "check_text ok_no_header_mention"
    by code_simp
  have client2: "always ok_other_product (url args0) = Inr ok_other_product"
    by (simp add: always_def)
  have ct2: "headers_getitem (headers ok_other_product) ''content-type''
               = Inr ''application/json''"
    by code_simp
  have json2: "str_in ''application/json'' ''application/json''"
    by code_simp
  have status2: "status_code ok_other_product = 200"
    by (simp add: ok_other_product_def)
  have other: "headers_getitem (headers ok_other_product) ''X-elastic-product'' = Inr ''Kibana''"
    by code_simp
  have differs: "''Kibana'' \<noteq> ''Elasticsearch''"
    by simp
  have start: "url args0 = ''http://10.0.0.5:9200/''" "verbose args0" "\<not> json args0"
    "printed world0 = []"
    by (simp_all add: args0_def world0_def)
  from ok_without_matching_header
         [where c = "always ok_no_header_mention" and a = args0 and r = ok_no_header_mention
            and ?w0.0 = world0, OF client1 ct1 json1 status1]
       absent mention
  have "is_elastic_run args0 (always ok_no_header_mention) world0 =
          (Inr (), world0\<lparr>sent := sent world0 @ [url args0],
             printed := printed world0 @ info_lines args0 ok_no_header_mention @
               [Ptprint [Lit ''The host is running ElasticSearch'']
                  ''VULN'' (\<not> json args0) 4]\<rparr>) \<and>
        is_elastic_outcome args0 (always ok_no_header_mention) world0
          = (Inr (), if json args0 then [] else [Confirmed])"
    by blast
  with status1 start have first:
    "printed (snd (is_elastic_run args0 (always ok_no_header_mention) world0)) =
       [Ptprint [Lit ''Sending request to: '', Fmt (JStr ''http://10.0.0.5:9200/'')]
          ''INFO'' True 4,
        Ptprint [Lit ''Returned response status: '', Fmt_int 200] ''INFO'' True 4,
        Ptprint [Lit ''The host is running ElasticSearch''] ''VULN'' True 4] \<and>
     is_elastic_outcome args0 (always ok_no_header_mention) world0 = (Inr (), [Confirmed])"
    by (simp add: info_lines_def)
  from ok_without_matching_header
         [where c = "always ok_other_product" and a = args0 and r = ok_other_product
            and ?w0.0 = world0, OF client2 ct2 json2 status2]
       other differs
  have "fst (is_elastic_run args0 (always ok_other_product) world0) = Inr () \<and>
     [Lit ''The host is running ElasticSearch''] \<notin> set (map call_text
        (drop (length (printed world0))
           (printed (snd (is_elastic_run args0 (always ok_other_product) world0))))) \<and>
     [Lit ''The host might be running ElasticSearch''] \<notin> set (map call_text
        (drop (length (printed world0))
           (printed (snd (is_elastic_run args0 (always ok_other_product) world0)))))"
    by blast
  with start have second:
    "fst (is_elastic_run args0 (always ok_other_product) world0) = Inr () \<and>
     [Lit ''The host is running ElasticSearch''] \<notin> set (map call_text
        (printed (snd (is_elastic_run args0 (always ok_other_product) world0)))) \<and>
     [Lit ''The host might be running ElasticSearch''] \<notin> set (map call_text
        (printed (snd (is_elastic_run args0 (always ok_other_product) world0))))"
    by simp
  from first second show ?thesis by simp
qed

section \<open>Properties of the software test\<close>

text \<open>
  Printing and adding a node leave the requests and the vulnerabilities alone, and so
  do the loops of the enumerations; each enumeration sends exactly one request.
\<close>

lemma ptprint_keeps [simp]:
  "sent (ptprint t b cond n w) = sent w"
  "vulnerabilities (ptprint t b cond n w) = vulnerabilities w"
  "nodes (ptprint t b cond n w) = nodes w"
  "heap (ptprint t b cond n w) = heap w"
  by (simp_all add: ptprint_def)

lemma add_node_keeps [simp]:
  "sent (add_node n w) = sent w"
  "vulnerabilities (add_node n w) = vulnerabilities w"
  "printed (add_node n w) = printed w"
  "heap (add_node n w) = heap w"
  by (simp_all add: add_node_def)

lemma modules_loop_keeps:
  "modules_loop a ms w = (res, w') \<Longrightarrow>
   sent w' = sent w \<and> vulnerabilities w' = vulnerabilities w"
  by (induction ms arbitrary: w) (auto split: sum.splits)

lemma nodes_loop_keeps:
  "nodes_loop a response ns w = (res, w') \<Longrightarrow>
   sent w' = sent w \<and> vulnerabilities w' = vulnerabilities w"
proof (induction ns arbitrary: w)
  case Nil
  then show ?case by simp
next
  case (Cons n ns)
  then show ?case
    by (fastforce split: sum.splits prod.splits dest: modules_loop_keeps)
qed

lemma plugins_loop_keeps:
  "plugins_loop a ls w = (res, w') \<Longrightarrow>
   sent w' = sent w \<and> vulnerabilities w' = vulnerabilities w"
  by (induction ls arbitrary: w) (auto split: sum.splits simp: Let_def)

lemma get_es_version_keeps:
  "get_es_version a c w = (res, w') \<Longrightarrow>
   sent w' = sent w @ [url a] \<and> vulnerabilities w' = vulnerabilities w"
  by (auto simp: get_es_version_def send_request_def split: sum.splits exn.splits prod.splits if_splits)

lemma get_modules_keeps:
  "get_modules a c w = (res, w') \<Longrightarrow>
   sent w' = sent w @ [url a @ ''_nodes''] \<and> vulnerabilities w' = vulnerabilities w"
  by (auto simp: get_modules_def send_request_def split: sum.splits prod.splits if_splits
      dest!: nodes_loop_keeps)

lemma get_plugins_keeps:
  "get_plugins a c w = (res, w') \<Longrightarrow>
   sent w' = sent w @ [url a @ ''_cat/plugins''] \<and> vulnerabilities w' = vulnerabilities w"
  by (auto simp: get_plugins_def send_request_def split: sum.splits prod.splits if_splits
      dest!: plugins_loop_keeps)

lemma attempt_keeps:
  "attempt m a (res, w) = (flag, w') \<Longrightarrow>
   sent w' = sent w \<and> vulnerabilities w' = vulnerabilities w \<and> flag = (res = Inr True)"
  by (auto simp: attempt_def split: sum.splits)

text \<open>
  C9. \<^verbatim>\<open>SwTest.run\<close> always returns normally and, whatever the client does
  (answers, or raises in any of the three enumerations), requests the version, the
  nodes and the plugins, in this order: an exception in one enumeration does not keep
  the next ones from being attempted. The vulnerability \<^verbatim>\<open>PTV-WEB-MISC-TECH\<close> is
  added exactly when at least one of the three enumerations returned \<^verbatim>\<open>True\<close>,
  and nothing else is added to the vulnerabilities.
\<close>

theorem sw_run_attempts_every_enumeration:
  "let r1 = get_es_version a c w0;
       w1 = snd (attempt ''Error when enumerating es version: '' a r1);
       r2 = get_modules a c w1;
       w2 = snd (attempt ''Error when enumerating modules: '' a r2);
       r3 = get_plugins a c w2;
       final = sw_run a c w0
   in fst final = Inr () \<and>
      sent (snd final) = sent w0 @ [url a, url a @ ''_nodes'', url a @ ''_cat/plugins''] \<and>
      vulnerabilities (snd final) =
        vulnerabilities w0 @
          (if fst r1 = Inr True \<or> fst r2 = Inr True \<or> fst r3 = Inr True
           then [''PTV-WEB-MISC-TECH''] else [])"
proof -
  obtain res1 v1 where r1: "get_es_version a c w0 = (res1, v1)" by (cases "get_es_version a c w0")
  obtain f1 w1 where a1: "attempt ''Error when enumerating es version: '' a (res1, v1) = (f1, w1)"
    by (cases "attempt ''Error when enumerating es version: '' a (res1, v1)")
  obtain res2 v2 where r2: "get_modules a c w1 = (res2, v2)" by (cases "get_modules a c w1")
  obtain f2 w2 where a2: "attempt ''Error when enumerating modules: '' a (res2, v2) = (f2, w2)"
    by (cases "attempt ''Error when enumerating modules: '' a (res2, v2)")
  obtain res3 v3 where r3: "get_plugins a c w2 = (res3, v3)" by (cases "get_plugins a c w2")
  obtain f3 w3 where a3: "attempt ''Error when enumerating plugins: '' a (res3, v3) = (f3, w3)"
    by (cases "attempt ''Error when enumerating plugins: '' a (res3, v3)")
  note k1 = get_es_version_keeps [OF r1] attempt_keeps [OF a1]
  note k2 = get_modules_keeps [OF r2] attempt_keeps [OF a2]
  note k3 = get_plugins_keeps [OF r3] attempt_keeps [OF a3]
  have run: "sw_run a c w0 =
      (Inr (), if f3 \<or> f2 \<or> f1 then add_vulnerability ''PTV-WEB-MISC-TECH'' w3 else w3)"
    by (simp add: sw_run_def r1 a1 r2 a2 r3 a3)
  show ?thesis
    using k1 k2 k3
    by (simp add: Let_def run r1 a1 r2 a2 r3 a3 add_vulnerability_def)
qed

theorem sw_run_attempts_every_enumeration_witness:
  "fst (get_es_version args0 sw_client world0) = Inl (OtherException ''connection reset'') \<and>
   fst (sw_run args0 sw_client world0) = Inr () \<and>
   sent (snd (sw_run args0 sw_client world0)) =
     [''http://10.0.0.5:9200/'', ''http://10.0.0.5:9200/_nodes'',
      ''http://10.0.0.5:9200/_cat/plugins''] \<and>
   vulnerabilities (snd (sw_run args0 sw_client world0)) = [''PTV-WEB-MISC-TECH'']"
proof -
  have version: "fst (get_es_version args0 sw_client world0)
                   = Inl (OtherException ''connection reset'')"
    by code_simp
  have modules: "fst (get_modules args0 sw_client
      (snd (attempt ''Error when enumerating es version: '' args0
              (get_es_version args0 sw_client world0)))) = Inr True"
    by code_simp
  have start: "sent world0 = []" "vulnerabilities world0 = []"
    "url args0 = ''http://10.0.0.5:9200/''"
    by (simp_all add: world0_def args0_def)
  from sw_run_attempts_every_enumeration [of args0 sw_client world0] version modules start
  show ?thesis
    by (simp add: Let_def)
qed

section \<open>Properties of the user enumeration\<close>

lemma printed_roles_append [simp]: "printed_roles (ps @ qs) = printed_roles ps @ printed_roles qs"
  by (simp add: printed_roles_def)

lemma printed_roles_Nil [simp]: "printed_roles [] = []"
  by (simp add: printed_roles_def)

lemma printed_roles_Cons [simp]:
  "printed_roles (p # ps) = role_of_text (call_text p) @ printed_roles ps"
  by (simp add: printed_roles_def)

lemma dict_setitem_keys:
  "map_of d k = Some v \<Longrightarrow> map fst (dict_setitem d k v') = map fst d"
  by (induction d) (auto split: if_splits)

lemma quiet_refl [simp]: "quiet w w"
  by (simp add: quiet_def)

lemma quiet_trans: "quiet w w1 \<Longrightarrow> quiet w1 w2 \<Longrightarrow> quiet w w2"
  by (auto simp: quiet_def)

lemma quiet_ptprint:
  "role_of_text t = [] \<Longrightarrow> quiet w w1 \<Longrightarrow> quiet w (ptprint t b cond n w1)"
  by (auto simp: quiet_def ptprint_def role_keys_def printed_roles_def)

lemma roles_append_quiet:
  "roles_append p role x w = (res, w') \<Longrightarrow> quiet w w'"
proof (cases "map_of (roles (heap w ! p)) role")
  case None
  assume "roles_append p role x w = (res, w')"
  with None show ?thesis by (simp add: roles_append_def Let_def)
next
  case (Some privileges)
  assume run: "roles_append p role x w = (res, w')"
  let ?up = "(heap w ! p)\<lparr>roles := dict_setitem (roles (heap w ! p)) role (privileges @ [x])\<rparr>"
  from run Some have w': "w' = w\<lparr>heap := (heap w)[p := ?up]\<rparr>"
    by (simp add: roles_append_def Let_def)
  have "map (\<lambda>u. map fst (roles u)) ((heap w)[p := ?up]) = map (\<lambda>u. map fst (roles u)) (heap w)"
  proof (cases "p < length (heap w)")
    case True
    have "map (\<lambda>u. map fst (roles u)) ((heap w)[p := ?up])
            = (map (\<lambda>u. map fst (roles u)) (heap w))[p := map fst (roles ?up)]"
      by (simp add: map_update)
    also have "map fst (roles ?up) = map fst (roles (heap w ! p))"
      using Some by (simp add: dict_setitem_keys)
    also have "(map (\<lambda>u. map fst (roles u)) (heap w))[p := map fst (roles (heap w ! p))]
                 = map (\<lambda>u. map fst (roles u)) (heap w)"
      using True by (simp add: list_update_same_conv)
    finally show ?thesis .
  next
    case False
    then have "length (heap w) \<le> p" by simp
    then have "(heap w)[p := ?up] = heap w" by (rule list_update_beyond)
    then show ?thesis by simp
  qed
  with w' show ?thesis
    by (simp add: quiet_def role_keys_def)
qed

lemma indices_loop_quiet:
  "indices_loop a role p xs w = (res, w') \<Longrightarrow> quiet w w'"
proof (induction xs arbitrary: w)
  case Nil
  then show ?case by simp
next
  case (Cons index rest)
  show ?case
    using Cons.prems
    by (auto split: sum.splits prod.splits if_splits
        dest!: roles_append_quiet Cons.IH
        intro: quiet_trans quiet_ptprint
        elim!: quiet_trans [rotated])
qed

lemma applications_loop_quiet:
  "applications_loop a role p xs w = (res, w') \<Longrightarrow> quiet w w'"
proof (induction xs arbitrary: w)
  case Nil
  then show ?case by simp
next
  case (Cons app rest)
  show ?case
    using Cons.prems
    by (auto split: sum.splits prod.splits if_splits
        dest!: roles_append_quiet Cons.IH
        intro: quiet_trans quiet_ptprint
        elim!: quiet_trans [rotated])
qed

lemma check_privileges_quiet:
  "check_privileges a role role_privileges p w = (res, w') \<Longrightarrow> quiet w w'"
  by (auto simp: check_privileges_def split: sum.splits prod.splits
      dest!: indices_loop_quiet applications_loop_quiet intro: quiet_trans)

lemma role_lines_step:
  assumes "role_of_text t = [role]"
    and "quiet (ptprint t b cond n w) w1"
    and "role_lines rest res w1 w'"
  shows "role_lines (role # rest) res w w'"
proof -
  from assms(2) obtain ps where
    ps: "printed w1 = printed w @ [Ptprint t b cond n] @ ps" "printed_roles ps = []"
    and keep1: "nodes w1 = nodes w" "role_keys w1 = role_keys w"
    by (auto simp: quiet_def ptprint_def role_keys_def)
  from assms(3) obtain qs where
    qs: "printed w' = printed w1 @ qs" "prefix (printed_roles qs) rest"
        "res = Inr () \<longrightarrow> printed_roles qs = rest"
    and keep2: "nodes w' = nodes w1" "role_keys w' = role_keys w1"
    by (auto simp: role_lines_def)
  define xs where "xs = [Ptprint t b cond n] @ ps @ qs"
  have pw: "printed w' = printed w @ xs"
    using ps(1) qs(1) by (simp add: xs_def)
  have pr: "printed_roles xs = role # printed_roles qs"
    using assms(1) ps(2) by (simp add: xs_def)
  have "prefix (printed_roles xs) (role # rest)"
    using qs(2) by (simp add: pr)
  moreover have "res = Inr () \<longrightarrow> printed_roles xs = role # rest"
    using qs(3) by (simp add: pr)
  moreover have "nodes w' = nodes w" "role_keys w' = role_keys w"
    using keep1 keep2 by simp_all
  ultimately show ?thesis
    unfolding role_lines_def using pw by blast
qed

lemma role_lines_stop:
  assumes "role_of_text t = [role]"
    and "quiet (ptprint t b cond n w) w'"
    and "res \<noteq> Inr ()"
  shows "role_lines (role # rest) res w w'"
proof -
  from assms(2) obtain ps where
    ps: "printed w' = printed w @ [Ptprint t b cond n] @ ps" "printed_roles ps = []"
    and keep1: "nodes w' = nodes w" "role_keys w' = role_keys w"
    by (auto simp: quiet_def ptprint_def role_keys_def)
  define xs where "xs = [Ptprint t b cond n] @ ps"
  have pw: "printed w' = printed w @ xs"
    using ps(1) by (simp add: xs_def)
  have pr: "printed_roles xs = [role]"
    using assms(1) ps(2) by (simp add: xs_def)
  have "prefix (printed_roles xs) (role # rest)"
    by (simp add: pr)
  moreover have "res = Inr () \<longrightarrow> printed_roles xs = role # rest"
    using assms(3) by simp
  ultimately show ?thesis
    unfolding role_lines_def using pw keep1 by blast
qed

lemma roles_loop_lines:
  "roles_loop a p check_roles role_privileges rs w = (res, w') \<Longrightarrow> role_lines rs res w w'"
proof (induction rs arbitrary: w)
  case Nil
  then show ?case by (auto simp: role_lines_def)
next
  case (Cons role rest)
  define t where "t = (if eq_str role ''superuser''
      then [Lit (CHR 0x1B # ''[0mRole: '' @ CHR 0x1B # ''[31m''), Fmt role]
      else [Lit ''Role: '', Fmt role])"
  define w1 where "w1 = ptprint t ''INFO'' (\<not> json a) 8 w"
  have t: "role_of_text t = [role]"
    by (simp add: t_def)
  show ?case
  proof (cases check_roles)
    case False
    with Cons.prems have
      "roles_loop a p check_roles role_privileges rest
         (ptprint [Lit ''Could not enumerate privileges''] ''ERROR'' (\<not> json a) 4 w1) = (res, w')"
      by (simp add: w1_def t_def Let_def split: if_splits)
    then have rest: "role_lines rest res
        (ptprint [Lit ''Could not enumerate privileges''] ''ERROR'' (\<not> json a) 4 w1) w'"
      by (rule Cons.IH)
    have "quiet w1 (ptprint [Lit ''Could not enumerate privileges''] ''ERROR'' (\<not> json a) 4 w1)"
      by (rule quiet_ptprint) simp_all
    with t show ?thesis
      using rest unfolding w1_def by (auto intro: role_lines_step)
  next
    case True
    obtain res1 w2 where cp: "check_privileges a role role_privileges p w1 = (res1, w2)"
      by (cases "check_privileges a role role_privileges p w1")
    then have q: "quiet w1 w2"
      by (rule check_privileges_quiet)
    show ?thesis
    proof (cases res1)
      case (Inl e)
      with Cons.prems True cp have "res = Inl e" "w' = w2"
        by (auto simp: w1_def t_def Let_def split: if_splits)
      with q t show ?thesis
        unfolding w1_def by (auto intro: role_lines_stop)
    next
      case (Inr u)
      with Cons.prems True cp have
        "roles_loop a p check_roles role_privileges rest w2 = (res, w')"
        by (auto simp: w1_def t_def Let_def split: if_splits)
      then have "role_lines rest res w2 w'"
        by (rule Cons.IH)
      with q t show ?thesis
        unfolding w1_def by (auto intro: role_lines_step)
    qed
  qed
qed

lemma role_lines_after_quiet:
  assumes "quiet w w1" and "role_lines rs res w1 w'"
  shows "role_lines rs res w w'"
proof -
  from assms(1) obtain ps where
    ps: "printed w1 = printed w @ ps" "printed_roles ps = []"
    and keep1: "nodes w1 = nodes w" "role_keys w1 = role_keys w"
    by (auto simp: quiet_def)
  from assms(2) obtain qs where
    qs: "printed w' = printed w1 @ qs" "prefix (printed_roles qs) rs"
        "res = Inr () \<longrightarrow> printed_roles qs = rs"
    and keep2: "nodes w' = nodes w1" "role_keys w' = role_keys w1"
    by (auto simp: role_lines_def)
  have pw: "printed w' = printed w @ (ps @ qs)"
    using ps(1) qs(1) by simp
  have pr: "printed_roles (ps @ qs) = printed_roles qs"
    using ps(2) by simp
  have "nodes w' = nodes w" "role_keys w' = role_keys w"
    using keep1 keep2 by simp_all
  then show ?thesis
    unfolding role_lines_def using pw pr qs(2,3) by metis
qed

lemma print_user_lines:
  assumes "print_user a p check_roles role_privileges w = (res, w')"
  shows "role_lines (remdups (map fst (roles (heap w ! p)))) res w w'"
proof -
  define w1 where "w1 = ptprint [Lit ''Email: '', Fmt (email (heap w ! p))] ''INFO'' (\<not> json a) 8
           (ptprint [Lit ''Found user: '', Fmt (username (heap w ! p))] ''INFO'' (\<not> json a) 4 w)"
  have "quiet w w1"
    unfolding w1_def by (intro quiet_ptprint quiet_refl) simp_all
  moreover from assms have
    "roles_loop a p check_roles role_privileges (remdups (map fst (roles (heap w ! p)))) w1
       = (res, w')"
    by (simp add: print_user_def Let_def w1_def)
  then have "role_lines (remdups (map fst (roles (heap w ! p)))) res w1 w'"
    by (rule roles_loop_lines)
  ultimately show ?thesis
    by (rule role_lines_after_quiet)
qed

lemma dict_of_zip_keys:
  "dict_of [] (zip xs [[]]) = Inr d \<Longrightarrow> map fst d = take 1 xs"
  by (cases xs) (auto split: if_splits)

lemma remdups_take_1 [simp]: "remdups (take (Suc 0) xs) = take (Suc 0) xs"
  by (cases xs) simp_all

lemma recorded_none: "recorded [] res w w"
  by (simp add: recorded_def)

lemma user_step_recorded:
  assumes "user_step a check_roles response users entry w = (res, w')"
  shows "(res \<noteq> Inr () \<and> recorded [] res w w')
       \<or> recorded [take 1 (user_role_list users entry)] res w w'"
proof (cases "getitem users entry")
  case (Inl e)
  with assms show ?thesis by (auto simp: user_step_def recorded_none)
next
  case user: (Inr user)
  show ?thesis
  proof (cases "getitem user (JStr ''roles'')")
    case (Inl e)
    with assms user show ?thesis by (auto simp: user_step_def recorded_none)
  next
    case user_roles: (Inr user_roles)
    show ?thesis
    proof (cases "iterate user_roles")
      case (Inl e)
      with assms user user_roles show ?thesis by (auto simp: user_step_def recorded_none)
    next
      case names: (Inr role_names)
      have url: "user_role_list users entry = role_names"
        by (simp add: user_role_list_def then_getitem_def user user_roles names)
      show ?thesis
      proof (cases "dict_of [] (zip role_names [[]] :: (jvalue \<times> jvalue list) list)")
        case (Inl e)
        with assms user user_roles names show ?thesis
          by (auto simp: user_step_def recorded_none)
      next
        case dict: (Inr roles_dict)
        then have keys: "map fst roles_dict = take 1 role_names"
          by (rule dict_of_zip_keys)
        show ?thesis
        proof (cases "getitem user (JStr ''username'')")
          case (Inl e)
          with assms user user_roles names dict show ?thesis
            by (auto simp: user_step_def recorded_none)
        next
          case name: (Inr name)
          show ?thesis
          proof (cases "getitem user (JStr ''email'')")
            case (Inl e)
            with assms user user_roles names dict name show ?thesis
              by (auto simp: user_step_def recorded_none)
          next
            case mail: (Inr mail)
            define w2 where "w2 = add_node (create_node_object ''user'' (Ref (length (heap w))))
              (w\<lparr>heap := heap w @ [\<lparr>username = name, email = mail, roles = roles_dict\<rparr>]\<rparr>)"
            have n2: "nodes w2 = nodes w @ [create_node_object ''user'' (Ref (length (heap w)))]"
              and k2: "role_keys w2 = role_keys w @ [take 1 role_names]"
              and p2: "printed w2 = printed w"
              and h2: "roles (heap w2 ! length (heap w)) = roles_dict"
              by (simp_all add: w2_def add_node_def role_keys_def keys)
            have step: "user_step a check_roles response users entry w =
                 (case response_json response of
                    Inl e \<Rightarrow> (Inl e, w2)
                  | Inr role_privileges \<Rightarrow>
                      print_user a (length (heap w)) check_roles role_privileges w2)"
              unfolding w2_def
              by (simp add: user_step_def user user_roles names dict name mail Let_def)
            have "recorded [take 1 role_names] res w w'"
            proof (cases "response_json response")
              case (Inl e)
              with assms step have "res = Inl e" "w' = w2" by simp_all
              then show ?thesis
                using n2 k2 p2 by (simp add: recorded_def)
            next
              case (Inr role_privileges)
              with assms step have
                "print_user a (length (heap w)) check_roles role_privileges w2 = (res, w')"
                by simp
              then have "role_lines (remdups (map fst (roles (heap w2 ! length (heap w))))) res w2 w'"
                by (rule print_user_lines)
              then have "role_lines (take 1 role_names) res w2 w'"
                by (simp add: h2 keys)
              then show ?thesis
                using n2 k2 p2 by (auto simp: recorded_def role_lines_def)
            qed
            then show ?thesis by (simp add: url)
          qed
        qed
      qed
    qed
  qed
qed

lemma length_role_keys [simp]: "length (role_keys w) = length (heap w)"
  by (simp add: role_keys_def)

lemma recorded_heap_length:
  "recorded rss res w w' \<Longrightarrow> length (heap w') = length (heap w) + length rss"
proof -
  assume "recorded rss res w w'"
  then have "role_keys w' = role_keys w @ rss"
    by (simp add: recorded_def)
  then have "length (role_keys w') = length (role_keys w @ rss)"
    by simp
  then show ?thesis by simp
qed

lemma recorded_Cons:
  assumes first: "recorded [rs] (Inr ()) w w1"
    and rest: "recorded rss res w1 w'"
  shows "recorded (rs # rss) res w w'"
proof -
  let ?f = "\<lambda>p. create_node_object ''user'' (Ref p)"
  let ?h = "length (heap w)"
  have h1: "length (heap w1) = Suc ?h"
    using recorded_heap_length [OF first] by simp
  from first obtain ps where
    n1: "nodes w1 = nodes w @ [?f ?h]"
    and k1: "role_keys w1 = role_keys w @ [rs]"
    and ps: "printed w1 = printed w @ ps" "printed_roles ps = rs"
    by (auto simp: recorded_def)
  from rest obtain qs where
    n2: "nodes w' = nodes w1 @ map ?f [Suc ?h ..< Suc ?h + length rss]"
    and k2: "role_keys w' = role_keys w1 @ rss"
    and qs: "printed w' = printed w1 @ qs" "prefix (printed_roles qs) (concat rss)"
            "res = Inr () \<longrightarrow> printed_roles qs = concat rss"
    by (auto simp: recorded_def h1)
  have upt: "[?h ..< ?h + length (rs # rss)] = ?h # [Suc ?h ..< Suc ?h + length rss]"
    by (subst upt_rec) simp
  have nodes: "nodes w' = nodes w @ map ?f [?h ..< ?h + length (rs # rss)]"
    unfolding upt using n1 n2 by simp
  have keys: "role_keys w' = role_keys w @ (rs # rss)"
    using k1 k2 by simp
  have pw: "printed w' = printed w @ (ps @ qs)"
    using ps(1) qs(1) by simp
  have "prefix (printed_roles (ps @ qs)) (concat (rs # rss))"
    using qs(2) by (simp add: ps(2))
  moreover have "res = Inr () \<longrightarrow> printed_roles (ps @ qs) = concat (rs # rss)"
    using qs(3) by (simp add: ps(2))
  ultimately show ?thesis
    unfolding recorded_def using nodes keys pw by blast
qed

lemma users_loop_recorded:
  "users_loop a check_roles response users entries w = (res, w') \<Longrightarrow>
   \<exists>k\<le>length entries.
     recorded (map (\<lambda>entry. take 1 (user_role_list users entry)) (take k entries)) res w w' \<and>
     (res = Inr () \<longrightarrow> k = length entries)"
proof (induction entries arbitrary: w)
  case Nil
  then show ?case by (simp add: recorded_none)
next
  case (Cons entry rest)
  let ?first = "\<lambda>entry. take 1 (user_role_list users entry)"
  obtain r1 w1 where step: "user_step a check_roles response users entry w = (r1, w1)"
    by (cases "user_step a check_roles response users entry w")
  note alt = user_step_recorded [OF step]
  show ?case
  proof (cases r1)
    case (Inl e)
    with Cons.prems step have stop: "res = Inl e" "w' = w1"
      by simp_all
    from alt show ?thesis
    proof
      assume "r1 \<noteq> Inr () \<and> recorded [] r1 w w1"
      then have "recorded (map ?first (take 0 (entry # rest))) res w w'"
        using stop Inl by simp
      with stop show ?thesis by blast
    next
      assume "recorded [take 1 (user_role_list users entry)] r1 w w1"
      then have "recorded (map ?first (take 1 (entry # rest))) res w w'"
        using stop Inl by simp
      moreover have "(1::nat) \<le> length (entry # rest)" by simp
      ultimately show ?thesis using stop by blast
    qed
  next
    case (Inr u)
    with alt have first: "recorded [?first entry] (Inr ()) w w1"
      by auto
    from Cons.prems step Inr have
      "users_loop a check_roles response users rest w1 = (res, w')"
      by simp
    from Cons.IH [OF this] obtain k where
      k: "k \<le> length rest" "recorded (map ?first (take k rest)) res w1 w'"
         "res = Inr () \<longrightarrow> k = length rest"
      by blast
    have "recorded (map ?first (take (Suc k) (entry # rest))) res w w'"
      using recorded_Cons [OF first k(2)] by simp
    moreover have "Suc k \<le> length (entry # rest)"
      using k(1) by simp
    moreover have "res = Inr () \<longrightarrow> Suc k = length (entry # rest)"
      using k(3) by simp
    ultimately show ?thesis by blast
  qed
qed

lemma recorded_roles_new_nodes:
  assumes "role_keys w' = ks @ rss"
  shows "map (recorded_roles w') (map (\<lambda>p. create_node_object ''user'' (Ref p))
           [length ks ..< length ks + length rss]) = rss"
proof (rule nth_equalityI)
  show "length (map (recorded_roles w') (map (\<lambda>p. create_node_object ''user'' (Ref p))
           [length ks ..< length ks + length rss])) = length rss"
    by simp
next
  fix i
  assume "i < length (map (recorded_roles w') (map (\<lambda>p. create_node_object ''user'' (Ref p))
           [length ks ..< length ks + length rss]))"
  then have i: "i < length rss" by simp
  have len: "length (heap w') = length ks + length rss"
    using arg_cong [OF assms, of length] by simp
  have "map fst (roles (heap w' ! (length ks + i))) = role_keys w' ! (length ks + i)"
    using i len by (simp add: role_keys_def)
  also have "\<dots> = rss ! i"
    by (simp add: assms nth_append)
  finally show "map (recorded_roles w') (map (\<lambda>p. create_node_object ''user'' (Ref p))
           [length ks ..< length ks + length rss]) ! i = rss ! i"
    using i len by (simp add: recorded_roles_def create_node_object_def)
qed

text \<open>
  C10. Let the users answer have status 200 and decode to a value whose entries the
  loop of \<^verbatim>\<open>Users.run\<close> goes through. However the run ends, the nodes it added
  to the report belong, in order, to the first entries, and the roles a node holds are
  the first element of that user's role list (\<open>take 1\<close>): one role when the user has
  one or many, none when the list is empty. The role lines printed name, in order, an
  initial part of these recorded roles, so at most that one role per user; when the
  run returns normally, every entry has its node and exactly the recorded roles were
  printed.
\<close>

theorem users_run_records_first_role_only:
  assumes "c (url a @ ''_security/user'') = Inr r"
    and "status_code r = 200"
    and "decoded r = Some users"
    and "iterate users = Inr entries"
    and "users_run a c w0 = (res, w')"
  shows "let new_nodes = drop (length (nodes w0)) (nodes w');
             new_lines = drop (length (printed w0)) (printed w')
         in length new_nodes \<le> length entries \<and>
            map (recorded_roles w') new_nodes =
              map (\<lambda>entry. take 1 (user_role_list users entry)) (take (length new_nodes) entries) \<and>
            prefix (printed_roles new_lines) (concat (map (recorded_roles w') new_nodes)) \<and>
            (res = Inr () \<longrightarrow>
               length new_nodes = length entries \<and>
               printed_roles new_lines = concat (map (recorded_roles w') new_nodes))"
proof -
  let ?first = "\<lambda>entry. take 1 (user_role_list users entry)"
  define w1 where "w1 = w0\<lparr>sent := sent w0 @ [url a @ ''_security/user'']\<rparr>"
  define w2 where "w2 = w1\<lparr>sent := sent w1 @ [url a @ ''_security/role'']\<rparr>"
  have same: "nodes w1 = nodes w0" "printed w1 = printed w0" "heap w1 = heap w0"
             "nodes w2 = nodes w0" "printed w2 = printed w0" "heap w2 = heap w0"
    by (simp_all add: w1_def w2_def)
  have "\<exists>k\<le>length entries. \<exists>w. nodes w = nodes w0 \<and> printed w = printed w0 \<and>
          recorded (map ?first (take k entries)) res w w' \<and> (res = Inr () \<longrightarrow> k = length entries)"
  proof (cases "c (url a @ ''_security/role'')")
    case (Inl e)
    with assms have "res = Inl e" "w' = w2"
      by (simp_all add: users_run_def send_request_def response_json_def w1_def w2_def)
    then have "recorded (map ?first (take 0 entries)) res w2 w'"
      by (simp add: recorded_none)
    with same \<open>res = Inl e\<close> have
      "0 \<le> length entries \<and> nodes w2 = nodes w0 \<and> printed w2 = printed w0 \<and>
       recorded (map ?first (take 0 entries)) res w2 w' \<and> (res = Inr () \<longrightarrow> 0 = length entries)"
      by simp
    then show ?thesis by blast
  next
    case (Inr response)
    with assms have
      "users_loop a (status_code response = 200) response users entries w2 = (res, w')"
      by (simp add: users_run_def send_request_def response_json_def w1_def w2_def)
    from users_loop_recorded [OF this] same show ?thesis
      by blast
  qed
  then obtain k w where k: "k \<le> length entries"
    and w: "nodes w = nodes w0" "printed w = printed w0"
    and rec: "recorded (map ?first (take k entries)) res w w'"
    and fin: "res = Inr () \<longrightarrow> k = length entries"
    by blast
  let ?rss = "map ?first (take k entries)"
  let ?new = "map (\<lambda>p. create_node_object ''user'' (Ref p))
                [length (heap w) ..< length (heap w) + length ?rss]"
  from rec obtain ps where
    nodes: "nodes w' = nodes w @ ?new"
    and keys: "role_keys w' = role_keys w @ ?rss"
    and ps: "printed w' = printed w @ ps" "prefix (printed_roles ps) (concat ?rss)"
            "res = Inr () \<longrightarrow> printed_roles ps = concat ?rss"
    by (auto simp: recorded_def)
  have new_nodes: "drop (length (nodes w0)) (nodes w') = ?new"
    using nodes w(1) by simp
  have new_lines: "drop (length (printed w0)) (printed w') = ps"
    using ps(1) w(2) by simp
  have len: "length ?new = k"
    using k by simp
  have roles: "map (recorded_roles w') ?new = ?rss"
    using recorded_roles_new_nodes [OF keys] by simp
  show ?thesis
    unfolding Let_def new_nodes new_lines roles len
    using k ps(2,3) fin by simp
qed

theorem users_run_records_first_role_only_witness:
  "user_role_list users_value (JStr ''elastic'')
     = [JStr ''superuser'', JStr ''kibana_admin'', JStr ''monitoring_user''] \<and>
   fst (users_run args0 users_client world0) = Inr () \<and>
   map (recorded_roles (snd (users_run args0 users_client world0)))
       (nodes (snd (users_run args0 users_client world0))) = [[JStr ''superuser''], []] \<and>
   printed_roles (printed (snd (users_run args0 users_client world0))) = [JStr ''superuser'']"
proof -
  let ?w = "snd (users_run args0 users_client world0)"
  have client: "users_client (url args0 @ ''_security/user'') = Inr users_answer"
    by code_simp
  have status: "status_code users_answer = 200"
    by (simp add: users_answer_def)
  have body: "decoded users_answer = Some users_value"
    by (simp add: users_answer_def)
  have entries: "iterate users_value = Inr [JStr ''elastic'', JStr ''guest'']"
    by code_simp
  have returned: "fst (users_run args0 users_client world0) = Inr ()"
    by code_simp
  then have run: "users_run args0 users_client world0 = (Inr (), ?w)"
    by (simp add: prod_eq_iff)
  have start: "nodes world0 = []" "printed world0 = []"
    by (simp_all add: world0_def)
  have all_roles: "user_role_list users_value (JStr ''elastic'')
      = [JStr ''superuser'', JStr ''kibana_admin'', JStr ''monitoring_user'']"
    by code_simp
  have no_roles: "user_role_list users_value (JStr ''guest'') = []"
    by code_simp
  from users_run_records_first_role_only
         [where c = users_client and a = args0 and r = users_answer and ?w0.0 = world0,
          OF client status body entries run]
  have "length (nodes ?w) = 2 \<and>
        map (recorded_roles ?w) (nodes ?w) =
          map (\<lambda>entry. take 1 (user_role_list users_value entry))
              (take (length (nodes ?w)) [JStr ''elastic'', JStr ''guest'']) \<and>
        printed_roles (printed ?w) = concat (map (recorded_roles ?w) (nodes ?w))"
    by (simp add: Let_def start)
  then have "map (recorded_roles ?w) (nodes ?w) = [[JStr ''superuser''], []]"
    and "printed_roles (printed ?w) = [JStr ''superuser'']"
    by (simp_all add: all_roles no_roles)
  with returned all_roles show ?thesis
    by simp
qed

end
